theory Spec2Isabelle
  imports Complex_Main
begin

section \<open>Data model\<close>

text \<open>
  The embedding follows \<^verbatim>\<open>src/sim/MouseInterface.cpp\<close>. The C++ \<^verbatim>\<open>int\<close> arguments are
  modelled as \<^typ>\<open>int\<close>: the only arithmetic on them (\<^verbatim>\<open>x + 1\<close>, \<^verbatim>\<open>y - 1\<close>,
  \<^verbatim>\<open>getHeight() - 1\<close>) happens on cells inside the maze, where it cannot overflow.
  A floating-point value (\<^verbatim>\<open>double\<close>, and the unit classes \<^verbatim>\<open>Meters\<close>, \<^verbatim>\<open>Degrees\<close>,
  \<^verbatim>\<open>RadiansPerSecond\<close>, ...) is the \<^typ>\<open>real\<close> it denotes: lengths in meters, angles in
  degrees, durations in seconds. The arithmetic that computes the destination of
  \<^verbatim>\<open>moveForward\<close> and the cell of a position rounds each result (the field \<open>fl\<close> of the
  configuration); angles and wheel speeds are computed exactly.
\<close>

datatype Direction = NORTH | EAST | SOUTH | WEST

text \<open>
  Modelled from the spec: \<^verbatim>\<open>InterfaceType.h\<close> is not among the sources. The code names
  \<^verbatim>\<open>InterfaceType::DISCRETE\<close> and \<^verbatim>\<open>InterfaceType::CONTINUOUS\<close>; the mode state machine of
  the spec has a third state before the mode is configured.
\<close>

datatype InterfaceType = UNINITIALIZED | DISCRETE | CONTINUOUS

text \<open>Colours are represented by their names (\<^verbatim>\<open>Color.h\<close> is not among the sources).\<close>

type_synonym Color = string

text \<open>The calls the facade issues on the maze graphic, in the order they are made.\<close>

datatype graphic_call =
    GSetTileColor int int Color
  | GDeclareWall int int Direction bool
  | GUndeclareWall int int Direction
  | GSetTileFogginess int int bool
  | GSetTileText int int "string list"

text \<open>The commands the facade issues on the kinematic mouse, in the order they are made.\<close>

datatype mouse_call =
    CallSetWheelSpeeds real real
  | CallTeleport "real \<times> real" real

text \<open>The maze: its size and the wall flags of its tiles (read only).\<close>

record Maze =
  getWidth :: int
  getHeight :: int
  tileIsWall :: "int \<Rightarrow> int \<Rightarrow> Direction \<Rightarrow> bool"

text \<open>
  Everything that is fixed during a run: the parameters read through \<^verbatim>\<open>P()\<close>, the constant
  tables \<^verbatim>\<open>CHAR_TO_COLOR\<close>, \<^verbatim>\<open>STRING_TO_COLOR\<close>, \<^verbatim>\<open>CHAR_TO_DIRECTION\<close> and
  \<^verbatim>\<open>DIRECTION_TO_CHAR\<close> (their declarations are not among the sources, so they are
  parameters), the maze, whether the build defines \<^verbatim>\<open>_WIN32\<close>, the rendering of a
  \<^verbatim>\<open>double\<close> by \<^verbatim>\<open>std::to_string\<close>, and the rounding \<open>fl\<close> of floating-point arithmetic:
  the result of an operation is \<open>fl\<close> of the exact result. The unit classes \<^verbatim>\<open>Meters\<close> and
  \<^verbatim>\<open>Cartesian\<close> are not among the sources (their siblings \<^verbatim>\<open>Time\<close> and \<^verbatim>\<open>Speed\<close> store a
  \<^verbatim>\<open>float\<close>, the facade computes in \<^verbatim>\<open>double\<close>), so the rounding is a parameter.
\<close>

record config =
  wallLength :: real
  wallWidth :: real
  tileBaseColor :: string
  declareBothWallHalves :: bool
  algorithmControlsTileFog :: bool
  discreteInterfaceDeclareWallOnRead :: bool
  printLateSensorReads :: bool
  frameRate :: real
  minSleepDuration :: real
  CHAR_TO_COLOR :: "char \<rightharpoonup> Color"
  STRING_TO_COLOR :: "string \<rightharpoonup> Color"
  CHAR_TO_DIRECTION :: "char \<rightharpoonup> Direction"
  DIRECTION_TO_CHAR :: "Direction \<rightharpoonup> char"
  maze :: Maze
  WIN32 :: bool
  double_to_string :: "real \<Rightarrow> string"
  fl :: "real \<Rightarrow> real"

text \<open>
  The mutable state: the kinematic mouse (\<^verbatim>\<open>m_mouse\<close>), the process-wide simulation state
  (\<^verbatim>\<open>S()\<close>), the facade's own \<^verbatim>\<open>m_tilesWithColor\<close>, and what the run has emitted: the calls
  on the maze graphic, the lines printed by \<^verbatim>\<open>SimUtilities::print\<close>, the warnings given to
  the logger, the commands given to the mouse, and the simulated time that has passed in
  \<^verbatim>\<open>SimUtilities::sleep\<close>.
\<close>

record sim =
  currentTranslation :: "real \<times> real"
  currentRotation :: real
  initialTranslation :: "real \<times> real"
  initialRotation :: real
  wheelSpeeds :: "real \<times> real"
  sensors :: "string \<rightharpoonup> real \<times> real"
  gyro :: real
  paused :: bool
  crashed :: bool
  simSpeed :: real
  interfaceType :: InterfaceType
  inputButtonWasPressed :: "int \<Rightarrow> bool"
  tilesWithColor :: "(int \<times> int) set"
  graphic :: "graphic_call list"
  printed :: "string list"
  warned :: "string list"
  mouseCalls :: "mouse_call list"
  clock :: real

text \<open>
  How a call can end without returning: \<^verbatim>\<open>SimUtilities::quit()\<close>, a failed \<^verbatim>\<open>ASSERT\<close>,
  \<^verbatim>\<open>std::map::at\<close> on a missing key, or a loop that is still running when the model's
  iteration bound is used up.
\<close>

datatype stop = QuitCalled | AssertFailed | OutOfRange | OutOfFuel

datatype 'a result = Stopped stop sim | Returned 'a sim

text \<open>
  The rest of the world, which runs while the facade sleeps: the kinematic integrator moves
  the mouse, the user pauses, changes the speed or presses buttons, the sensors are
  updated. \<open>elapse w d s\<close> is the state the world reaches from \<open>s\<close> in \<open>d\<close> seconds;
  \<open>readLatency w name s\<close> is the time a read of sensor \<open>name\<close> takes.
\<close>

record world =
  elapse :: "real \<Rightarrow> sim \<Rightarrow> sim"
  readLatency :: "string \<Rightarrow> sim \<Rightarrow> real"

section \<open>Collaborators\<close>

text \<open>\<^verbatim>\<open>std::to_string(int)\<close>.\<close>

fun digits :: "nat \<Rightarrow> string" where
  "digits n = (if n < 10 then [''0123456789'' ! n]
               else digits (n div 10) @ [''0123456789'' ! (n mod 10)])"

definition to_string :: "int \<Rightarrow> string" where
  "to_string i = (if i < 0 then CHR ''-'' # digits (nat (- i)) else digits (nat i))"

text \<open>
  Modelled from the spec: \<^verbatim>\<open>SimUtilities::print\<close> and the logger are not among the sources.
  A printed line and a logged warning are added to what the run has emitted and change
  nothing else.
\<close>

definition print :: "string \<Rightarrow> sim \<Rightarrow> sim" where
  "print msg s = s\<lparr>printed := printed s @ [msg]\<rparr>"

definition warn :: "string \<Rightarrow> sim \<Rightarrow> sim" where
  "warn msg s = s\<lparr>warned := warned s @ [msg]\<rparr>"

text \<open>
  Modelled from the spec: \<^verbatim>\<open>SimUtilities::sleep\<close> is not among the sources. The world runs
  for the given time. It changes the mouse's pose and readings, the pause flag, the
  simulation speed and the input buttons; wheel speeds, the crashed flag, the interface
  type and everything the facade has emitted are the facade's.
\<close>

definition sleep :: "world \<Rightarrow> real \<Rightarrow> sim \<Rightarrow> sim" where
  "sleep w d s =
     (let s' = elapse w d s
      in s\<lparr>currentTranslation := currentTranslation s',
            currentRotation := currentRotation s',
            sensors := sensors s',
            gyro := gyro s',
            paused := paused s',
            simSpeed := simSpeed s',
            inputButtonWasPressed := inputButtonWasPressed s',
            clock := clock s + d\<rparr>)"

text \<open>
  Modelled from the spec: the angle classes are not among the sources. A heading wraps
  around at 360 degrees, so an angle is kept in \<open>[0, 360)\<close>.
\<close>

definition Degrees :: "real \<Rightarrow> real" where
  "Degrees d = d - 360 * of_int \<lfloor>d / 360\<rfloor>"

text \<open>
  Modelled from the spec: \<^verbatim>\<open>Mouse::setWheelSpeeds\<close> and \<^verbatim>\<open>Mouse::teleport\<close> are not among
  the sources. The first stores the two wheel speeds; the second snaps the pose exactly
  onto the given translation and rotation.
\<close>

definition mouse_setWheelSpeeds :: "real \<Rightarrow> real \<Rightarrow> sim \<Rightarrow> sim" where
  "mouse_setWheelSpeeds l r s =
     s\<lparr>wheelSpeeds := (l, r), mouseCalls := mouseCalls s @ [CallSetWheelSpeeds l r]\<rparr>"

definition teleport :: "real \<times> real \<Rightarrow> real \<Rightarrow> sim \<Rightarrow> sim" where
  "teleport translation rotation s =
     s\<lparr>currentTranslation := translation, currentRotation := rotation,
       mouseCalls := mouseCalls s @ [CallTeleport translation rotation]\<rparr>"

text \<open>
  Rounding to the nearest number with \<open>p\<close> significant bits, ties to even: the rounding of
  IEEE 754 arithmetic (\<open>p = 53\<close> for \<^verbatim>\<open>double\<close>, \<open>p = 24\<close> for \<^verbatim>\<open>float\<close>) on magnitudes from
  \<open>2 powi (- 1100)\<close> to \<open>2 powi 1100\<close>; overflow and subnormal numbers are not modelled.
  \<open>find_exp n x\<close> is the binary exponent of a positive \<open>x\<close>, found in at most \<open>n\<close>
  steps.
\<close>

fun find_exp :: "nat \<Rightarrow> real \<Rightarrow> int" where
  "find_exp 0 x = 0"
| "find_exp (Suc n) x =
     (if x < 1 then find_exp n (2 * x) - 1
      else if 2 \<le> x then find_exp n (x / 2) + 1
      else 0)"

definition nearest_even :: "real \<Rightarrow> int" where
  "nearest_even y =
     (if y - of_int \<lfloor>y\<rfloor> < 1 / 2 then \<lfloor>y\<rfloor>
      else if 1 / 2 < y - of_int \<lfloor>y\<rfloor> then \<lfloor>y\<rfloor> + 1
      else if even \<lfloor>y\<rfloor> then \<lfloor>y\<rfloor>
      else \<lfloor>y\<rfloor> + 1)"

definition exponent_steps :: nat where
  "exponent_steps = 1100"

definition binary_round :: "nat \<Rightarrow> real \<Rightarrow> real" where
  "binary_round p x =
     (if x = 0 then 0
      else sgn x * (of_int (nearest_even
                             (\<bar>x\<bar> / 2 powi (find_exp exponent_steps \<bar>x\<bar> - (int p - 1))))
                    * 2 powi (find_exp exponent_steps \<bar>x\<bar> - (int p - 1))))"

text \<open>The rounding of \<^verbatim>\<open>double\<close> arithmetic.\<close>

definition round_double :: "real \<Rightarrow> real" where
  "round_double x = binary_round 53 x"

text \<open>
  The tile length \<^verbatim>\<open>P()->wallLength() + P()->wallWidth()\<close>, as \<^verbatim>\<open>moveForward\<close> computes it.
\<close>

definition tileLength :: "config \<Rightarrow> real" where
  "tileLength cfg = fl cfg (wallLength cfg + wallWidth cfg)"

text \<open>
  Modelled from the spec: \<^verbatim>\<open>Mouse::getDiscretizedTranslation\<close> is not among the sources.
  The position, measured from the maze origin, is floor-divided by the tile length
  (wall length + wall width) on each axis, in floating-point arithmetic.
\<close>

definition getDiscretizedTranslation :: "config \<Rightarrow> sim \<Rightarrow> int \<times> int" where
  "getDiscretizedTranslation cfg s =
     (\<lfloor>fl cfg (fst (currentTranslation s) / tileLength cfg)\<rfloor>,
      \<lfloor>fl cfg (snd (currentTranslation s) / tileLength cfg)\<rfloor>)"

text \<open>
  Modelled from the spec: \<^verbatim>\<open>Mouse::getDiscretizedRotation\<close> is not among the sources. The
  heading is snapped to the nearest cardinal direction, wrapping around at 360 degrees;
  the angle of each direction is the one \<^verbatim>\<open>moveForward\<close> uses (NORTH 0, WEST 90,
  SOUTH 180, EAST 270).
\<close>

definition getDiscretizedRotation :: "sim \<Rightarrow> Direction" where
  "getDiscretizedRotation s =
     (let dir = \<lfloor>(currentRotation s + 45) / 90\<rfloor> mod 4
      in if dir = 0 then NORTH else if dir = 1 then WEST else if dir = 2 then SOUTH else EAST)"

text \<open>Modelled from the spec: \<^verbatim>\<open>State::setCrashed\<close> sets the process-wide crashed flag.\<close>

definition setCrashed :: "sim \<Rightarrow> sim" where
  "setCrashed s = s\<lparr>crashed := True\<rparr>"

text \<open>
  Modelled from the spec: \<^verbatim>\<open>State::setInputButtonWasPressed\<close> stores the flag of one
  button.
\<close>

definition setInputButtonWasPressed :: "int \<Rightarrow> bool \<Rightarrow> sim \<Rightarrow> sim" where
  "setInputButtonWasPressed k b s =
     s\<lparr>inputButtonWasPressed := (inputButtonWasPressed s)(k := b)\<rparr>"

text \<open>
  Modelled from the spec: \<^verbatim>\<open>MazeGraphic\<close> is not among the sources (rendering is an external
  collaborator). A call on it is recorded, in order, and has no other effect.
\<close>

definition graphic_do :: "graphic_call \<Rightarrow> sim \<Rightarrow> sim" where
  "graphic_do c s = s\<lparr>graphic := graphic s @ [c]\<rparr>"

section \<open>The facade: \<^verbatim>\<open>MouseInterface\<close>\<close>

fun bind_result :: "'a result \<Rightarrow> ('a \<Rightarrow> sim \<Rightarrow> 'b result) \<Rightarrow> 'b result" where
  "bind_result (Stopped r s) f = Stopped r s"
| "bind_result (Returned a s) f = f a s"

text \<open>The state in which a call ended, whether it returned or not.\<close>

fun result_state :: "'a result \<Rightarrow> sim" where
  "result_state (Stopped r s) = s"
| "result_state (Returned a s) = s"

definition tile_text :: "int \<Rightarrow> int \<Rightarrow> string" where
  "tile_text x y = ''('' @ to_string x @ '', '' @ to_string y @ '')''"

definition withinMaze :: "config \<Rightarrow> int \<Rightarrow> int \<Rightarrow> bool" where
  "withinMaze cfg x y \<longleftrightarrow>
     0 \<le> x \<and> x < getWidth (maze cfg) \<and> 0 \<le> y \<and> y < getHeight (maze cfg)"

fun hasOpposingWall :: "config \<Rightarrow> int \<Rightarrow> int \<Rightarrow> Direction \<Rightarrow> bool" where
  "hasOpposingWall cfg x y NORTH \<longleftrightarrow> y < getHeight (maze cfg) - 1"
| "hasOpposingWall cfg x y EAST \<longleftrightarrow> x < getWidth (maze cfg) - 1"
| "hasOpposingWall cfg x y SOUTH \<longleftrightarrow> y > 0"
| "hasOpposingWall cfg x y WEST \<longleftrightarrow> x > 0"

text \<open>\<open>None\<close> is the failed \<^verbatim>\<open>ASSERT(hasOpposingWall(x, y, direction))\<close>.\<close>

definition getOpposingWall ::
  "config \<Rightarrow> int \<Rightarrow> int \<Rightarrow> Direction \<Rightarrow> ((int \<times> int) \<times> Direction) option" where
  "getOpposingWall cfg x y direction =
     (if \<not> hasOpposingWall cfg x y direction then None
      else Some (case direction of
          NORTH \<Rightarrow> ((x, y + 1), SOUTH)
        | EAST \<Rightarrow> ((x + 1, y), WEST)
        | SOUTH \<Rightarrow> ((x, y - 1), NORTH)
        | WEST \<Rightarrow> ((x - 1, y), EAST)))"

subsection \<open>Tile annotation\<close>

text \<open>The two warnings of the colour operations are compiled only when \<^verbatim>\<open>_WIN32\<close> is not defined.\<close>

definition setTileColor :: "config \<Rightarrow> int \<Rightarrow> int \<Rightarrow> char \<Rightarrow> sim \<Rightarrow> unit result" where
  "setTileColor cfg x y color s =
     (if \<not> withinMaze cfg x y then
        Returned ()
          (if \<not> WIN32 cfg then
             warn (''There is no tile at position '' @ tile_text x y
                   @ '' and thus you cannot set its color.'') s
           else s)
      else case CHAR_TO_COLOR cfg color of
        None \<Rightarrow>
          Returned ()
            (if \<not> WIN32 cfg then
               warn (''You cannot set the color of tile '' @ tile_text x y @ '' to '' @ [CHR 0x27]
                     @ [color] @ [CHR 0x27] @ '' since '' @ [CHR 0x27] @ [color] @ [CHR 0x27]
                     @ '' is not mapped to a color.'') s
             else s)
      | Some c \<Rightarrow>
          Returned ()
            ((graphic_do (GSetTileColor x y c) s)\<lparr>tilesWithColor := insert (x, y) (tilesWithColor s)\<rparr>))"

definition clearTileColor :: "config \<Rightarrow> int \<Rightarrow> int \<Rightarrow> sim \<Rightarrow> unit result" where
  "clearTileColor cfg x y s =
     (if \<not> withinMaze cfg x y then
        Returned ()
          (if \<not> WIN32 cfg then
             warn (''There is no tile at position '' @ tile_text x y
                   @ '' and thus you cannot clear its color.'') s
           else s)
      else case STRING_TO_COLOR cfg (tileBaseColor cfg) of
        None \<Rightarrow> Stopped OutOfRange s
      | Some c \<Rightarrow>
          Returned ()
            ((graphic_do (GSetTileColor x y c) s)\<lparr>tilesWithColor := tilesWithColor s - {(x, y)}\<rparr>))"

definition no_tile_error :: "int \<Rightarrow> int \<Rightarrow> string \<Rightarrow> string" where
  "no_tile_error x y what =
     ''Error: There is no tile at position '' @ tile_text x y @ '', and thus you cannot '' @ what"

definition no_direction_error :: "char \<Rightarrow> string" where
  "no_direction_error direction =
     ''The character '' @ [CHR 0x27] @ [direction] @ [CHR 0x27]
     @ '' is not mapped to a valid direction.''"

definition declareWall :: "config \<Rightarrow> int \<Rightarrow> int \<Rightarrow> char \<Rightarrow> bool \<Rightarrow> sim \<Rightarrow> unit result" where
  "declareWall cfg x y direction wallExists s =
     (if \<not> withinMaze cfg x y then
        Returned () (print (no_tile_error x y ''declare any of its walls.'') s)
      else case CHAR_TO_DIRECTION cfg direction of
        None \<Rightarrow> Returned () (print (no_direction_error direction) s)
      | Some d \<Rightarrow>
          (let s1 = graphic_do (GDeclareWall x y d wallExists) s
           in if declareBothWallHalves cfg \<and> hasOpposingWall cfg x y d then
                (case getOpposingWall cfg x y d of
                   None \<Rightarrow> Stopped AssertFailed s1
                 | Some opposing \<Rightarrow>
                     Returned ()
                       (graphic_do (GDeclareWall (fst (fst opposing)) (snd (fst opposing))
                                      (snd opposing) wallExists) s1))
              else Returned () s1))"

definition undeclareWall :: "config \<Rightarrow> int \<Rightarrow> int \<Rightarrow> char \<Rightarrow> sim \<Rightarrow> unit result" where
  "undeclareWall cfg x y direction s =
     (if \<not> withinMaze cfg x y then
        Returned () (print (no_tile_error x y ''undeclare any of its walls.'') s)
      else case CHAR_TO_DIRECTION cfg direction of
        None \<Rightarrow> Returned () (print (no_direction_error direction) s)
      | Some d \<Rightarrow>
          (let s1 = graphic_do (GUndeclareWall x y d) s
           in if declareBothWallHalves cfg \<and> hasOpposingWall cfg x y d then
                (case getOpposingWall cfg x y d of
                   None \<Rightarrow> Stopped AssertFailed s1
                 | Some opposing \<Rightarrow>
                     Returned ()
                       (graphic_do (GUndeclareWall (fst (fst opposing)) (snd (fst opposing))
                                      (snd opposing)) s1))
              else Returned () s1))"

definition setTileFogginess :: "config \<Rightarrow> int \<Rightarrow> int \<Rightarrow> bool \<Rightarrow> sim \<Rightarrow> unit result" where
  "setTileFogginess cfg x y foggy s =
     (if \<not> withinMaze cfg x y then
        Returned () (print (no_tile_error x y ''set its fogginess.'') s)
      else if \<not> algorithmControlsTileFog cfg then Returned () s
      else Returned () (graphic_do (GSetTileFogginess x y foggy) s))"

definition declareTileDistance :: "config \<Rightarrow> int \<Rightarrow> int \<Rightarrow> int \<Rightarrow> sim \<Rightarrow> unit result" where
  "declareTileDistance cfg x y distance s =
     (if \<not> withinMaze cfg x y then
        Returned () (print (no_tile_error x y ''set its distance.'') s)
      else Returned () (graphic_do (GSetTileText x y [to_string distance]) s))"

definition undeclareTileDistance :: "config \<Rightarrow> int \<Rightarrow> int \<Rightarrow> sim \<Rightarrow> unit result" where
  "undeclareTileDistance cfg x y s =
     (if \<not> withinMaze cfg x y then
        Returned () (print (no_tile_error x y ''clear its distance.'') s)
      else Returned () (graphic_do (GSetTileText x y []) s))"

subsection \<open>Position reset and input buttons\<close>

definition resetPosition :: "sim \<Rightarrow> unit result" where
  "resetPosition s = Returned () (teleport (initialTranslation s) (Degrees 0) s)"

definition no_button_error :: "int \<Rightarrow> string \<Rightarrow> string" where
  "no_button_error inputButton what =
     ''Error: There is no input button with the number '' @ to_string inputButton
     @ '', and thus you cannot '' @ what"

definition inputButtonPressed :: "int \<Rightarrow> sim \<Rightarrow> bool result" where
  "inputButtonPressed inputButton s =
     (if inputButton < 0 \<or> 9 < inputButton then
        Returned False
          (print (no_button_error inputButton ''check to see if it has been pressed.'') s)
      else Returned (inputButtonWasPressed s inputButton) s)"

definition acknowledgeInputButtonPressed :: "int \<Rightarrow> sim \<Rightarrow> unit result" where
  "acknowledgeInputButtonPressed inputButton s =
     (if inputButton < 0 \<or> 9 < inputButton then
        Returned ()
          (print (no_button_error inputButton ''acknowledge that it has been pressed.'') s)
      else Returned () (setInputButtonWasPressed inputButton False s))"

subsection \<open>Mode enforcement\<close>

text \<open>
  Modelled from the spec: \<^verbatim>\<open>SimUtilities::quit\<close> is not among the sources; it terminates the
  run, so nothing after it is executed. The macros \<^verbatim>\<open>ENSURE_DISCRETE_INTERFACE\<close> and
  \<^verbatim>\<open>ENSURE_CONTINUOUS_INTERFACE\<close> are declared in the absent header: they call the guard
  with the name of the operation they stand in.
\<close>

definition mode_error :: "string \<Rightarrow> string \<Rightarrow> string" where
  "mode_error required callingFunction =
     ''Error: You must declare the interface type to be sim::InterfaceType::'' @ required
     @ '' to use MouseInterface::'' @ callingFunction @ ''().''"

definition ensureDiscreteInterface :: "string \<Rightarrow> sim \<Rightarrow> unit result" where
  "ensureDiscreteInterface callingFunction s =
     (if interfaceType s \<noteq> DISCRETE then
        Stopped QuitCalled (print (mode_error ''DISCRETE'' callingFunction) s)
      else Returned () s)"

definition ensureContinuousInterface :: "string \<Rightarrow> sim \<Rightarrow> unit result" where
  "ensureContinuousInterface callingFunction s =
     (if interfaceType s \<noteq> CONTINUOUS then
        Stopped QuitCalled (print (mode_error ''CONTINUOUS'' callingFunction) s)
      else Returned () s)"

subsection \<open>Continuous interface\<close>

definition setWheelSpeeds :: "real \<Rightarrow> real \<Rightarrow> sim \<Rightarrow> unit result" where
  "setWheelSpeeds leftWheelRadiansPerSecond rightWheelRadiansPerSecond s =
     bind_result (ensureContinuousInterface ''setWheelSpeeds'' s)
       (\<lambda>_ s. Returned ()
          (mouse_setWheelSpeeds leftWheelRadiansPerSecond rightWheelRadiansPerSecond s))"

text \<open>
  A sensor of the mouse is its current reading and its read duration in seconds
  (\<^verbatim>\<open>Mouse::hasSensor\<close>, \<^verbatim>\<open>Mouse::read\<close> and \<^verbatim>\<open>Mouse::getReadDuration\<close> look it up by name).
\<close>

definition read :: "config \<Rightarrow> world \<Rightarrow> string \<Rightarrow> sim \<Rightarrow> real result" where
  "read cfg w name s =
     bind_result (ensureContinuousInterface ''read'' s)
       (\<lambda>_ s. case sensors s name of
          None \<Rightarrow>
            Returned 0
              (print (''Error: There is no sensor called '' @ [CHR 0x22] @ name @ [CHR 0x22]
                      @ '' and thus you cannot read its value.'') s)
        | Some sensor \<Rightarrow>
            (let val = fst sensor;
                 duration = readLatency w name s;
                 s1 = (if printLateSensorReads cfg \<and> duration > snd sensor then
                         print (''A sensor read was late by ''
                                @ double_to_string cfg (duration - snd sensor)
                                @ '' seconds, which is ''
                                @ double_to_string cfg
                                    ((duration - snd sensor) / snd sensor * 100)
                                @ '' percent late.'') s
                       else s)
             in Returned val (sleep w (max 0 (1 / frameRate cfg - duration)) s1)))"

definition readGyro :: "sim \<Rightarrow> real result" where
  "readGyro s =
     bind_result (ensureContinuousInterface ''readGyro'' s) (\<lambda>_ s. Returned (gyro s) s)"

subsection \<open>Discrete interface: wall queries\<close>

definition isWall :: "config \<Rightarrow> int \<times> int \<Rightarrow> Direction \<Rightarrow> sim \<Rightarrow> bool result" where
  "isWall cfg position direction s =
     (if \<not> (0 \<le> fst position \<and> fst position < getWidth (maze cfg)
             \<and> 0 \<le> snd position \<and> snd position < getHeight (maze cfg)) then
        Stopped AssertFailed s
      else
        (let wallExists = tileIsWall (maze cfg) (fst position) (snd position) direction
         in if discreteInterfaceDeclareWallOnRead cfg then
              (case DIRECTION_TO_CHAR cfg direction of
                 None \<Rightarrow> Stopped OutOfRange s
               | Some c \<Rightarrow>
                   bind_result (declareWall cfg (fst position) (snd position) c wallExists s)
                     (\<lambda>_ s. Returned wallExists s))
            else Returned wallExists s))"

definition wallFront :: "config \<Rightarrow> sim \<Rightarrow> bool result" where
  "wallFront cfg s =
     bind_result (ensureDiscreteInterface ''wallFront'' s)
       (\<lambda>_ s. isWall cfg (getDiscretizedTranslation cfg s) (getDiscretizedRotation s) s)"

definition wallRight :: "config \<Rightarrow> sim \<Rightarrow> bool result" where
  "wallRight cfg s =
     bind_result (ensureDiscreteInterface ''wallRight'' s)
       (\<lambda>_ s. let position = getDiscretizedTranslation cfg s
              in case getDiscretizedRotation s of
                   NORTH \<Rightarrow> isWall cfg position EAST s
                 | EAST \<Rightarrow> isWall cfg position SOUTH s
                 | SOUTH \<Rightarrow> isWall cfg position WEST s
                 | WEST \<Rightarrow> isWall cfg position NORTH s)"

definition wallLeft :: "config \<Rightarrow> sim \<Rightarrow> bool result" where
  "wallLeft cfg s =
     bind_result (ensureDiscreteInterface ''wallLeft'' s)
       (\<lambda>_ s. let position = getDiscretizedTranslation cfg s
              in case getDiscretizedRotation s of
                   NORTH \<Rightarrow> isWall cfg position WEST s
                 | EAST \<Rightarrow> isWall cfg position NORTH s
                 | SOUTH \<Rightarrow> isWall cfg position EAST s
                 | WEST \<Rightarrow> isWall cfg position SOUTH s)"

subsection \<open>Discrete interface: motion\<close>

text \<open>
  The loops poll a pose that the world changes while they sleep, so they need not end.
  Each loop of the model runs for at most \<open>fuel\<close> iterations and stops with
  \<^const>\<open>OutOfFuel\<close> when it would need more.
\<close>

fun waitWhilePaused :: "config \<Rightarrow> world \<Rightarrow> nat \<Rightarrow> sim \<Rightarrow> unit result" where
  "waitWhilePaused cfg w 0 s = (if paused s then Stopped OutOfFuel s else Returned () s)"
| "waitWhilePaused cfg w (Suc n) s =
     (if paused s then waitWhilePaused cfg w n (sleep w (minSleepDuration cfg / 1000) s)
      else Returned () s)"

definition checkPaused :: "config \<Rightarrow> world \<Rightarrow> nat \<Rightarrow> sim \<Rightarrow> unit result" where
  "checkPaused cfg w fuel s =
     (if paused s then waitWhilePaused cfg w fuel (mouse_setWheelSpeeds 0 0 s)
      else Returned () s)"

text \<open>
  The twelve motion loops of \<^verbatim>\<open>moveForward\<close>, \<^verbatim>\<open>turnRight\<close> and \<^verbatim>\<open>turnLeft\<close> have one body
  (check for pause, command the wheels from the current simulation speed, sleep one
  minimum tick) and differ in their condition and in the wheel speeds.
\<close>

fun motionLoop ::
  "config \<Rightarrow> world \<Rightarrow> nat \<Rightarrow> (sim \<Rightarrow> bool) \<Rightarrow> (sim \<Rightarrow> real \<times> real) \<Rightarrow> nat \<Rightarrow> sim
     \<Rightarrow> unit result" where
  "motionLoop cfg w fuel cond speeds 0 s =
     (if cond s then Stopped OutOfFuel s else Returned () s)"
| "motionLoop cfg w fuel cond speeds (Suc n) s =
     (if cond s then
        bind_result (checkPaused cfg w fuel s)
          (\<lambda>_ s. motionLoop cfg w fuel cond speeds n
                   (sleep w (minSleepDuration cfg / 1000)
                      (mouse_setWheelSpeeds (fst (speeds s)) (snd (speeds s)) s)))
      else Returned () s)"

text \<open>After a loop: zero both wheels, then teleport to the destination.\<close>

definition arrive :: "real \<times> real \<Rightarrow> real \<Rightarrow> unit result \<Rightarrow> unit result" where
  "arrive destinationTranslation destinationRotation r =
     bind_result r
       (\<lambda>_ s. Returned ()
          (teleport destinationTranslation destinationRotation (mouse_setWheelSpeeds 0 0 s)))"

definition forwardSpeeds :: "sim \<Rightarrow> real \<times> real" where
  "forwardSpeeds s = (- simSpeed s, simSpeed s)"

definition rightSpeeds :: "sim \<Rightarrow> real \<times> real" where
  "rightSpeeds s = (simSpeed s / 2, simSpeed s / 2)"

definition leftSpeeds :: "sim \<Rightarrow> real \<times> real" where
  "leftSpeeds s = (- simSpeed s / 2, - simSpeed s / 2)"

text \<open>The destination of \<^verbatim>\<open>moveForward\<close> and the condition of its loop, per heading.\<close>

definition forwardDestination :: "config \<Rightarrow> sim \<Rightarrow> (real \<times> real) \<times> real" where
  "forwardDestination cfg s =
     (let currentX = fl cfg (fl cfg (tileLength cfg
                                      * of_int (fst (getDiscretizedTranslation cfg s)))
                             + fst (initialTranslation s));
          currentY = fl cfg (fl cfg (tileLength cfg
                                      * of_int (snd (getDiscretizedTranslation cfg s)))
                             + snd (initialTranslation s))
      in case getDiscretizedRotation s of
           NORTH \<Rightarrow>
             ((fl cfg (currentX + 0), fl cfg (currentY + tileLength cfg)), Degrees 0)
         | EAST \<Rightarrow>
             ((fl cfg (currentX + tileLength cfg), fl cfg (currentY + 0)), Degrees 270)
         | SOUTH \<Rightarrow>
             ((fl cfg (currentX + 0), fl cfg (currentY + fl cfg (tileLength cfg * (- 1)))),
              Degrees 180)
         | WEST \<Rightarrow>
             ((fl cfg (currentX + fl cfg (tileLength cfg * (- 1))), fl cfg (currentY + 0)),
              Degrees 90))"

fun forwardCond :: "Direction \<Rightarrow> real \<times> real \<Rightarrow> sim \<Rightarrow> bool" where
  "forwardCond NORTH destinationTranslation s \<longleftrightarrow>
     snd (currentTranslation s) < snd destinationTranslation"
| "forwardCond EAST destinationTranslation s \<longleftrightarrow>
     fst (currentTranslation s) < fst destinationTranslation"
| "forwardCond SOUTH destinationTranslation s \<longleftrightarrow>
     snd destinationTranslation < snd (currentTranslation s)"
| "forwardCond WEST destinationTranslation s \<longleftrightarrow>
     fst destinationTranslation < fst (currentTranslation s)"

definition moveForward :: "config \<Rightarrow> world \<Rightarrow> nat \<Rightarrow> sim \<Rightarrow> unit result" where
  "moveForward cfg w fuel s =
     bind_result (ensureDiscreteInterface ''moveForward'' s)
       (\<lambda>_ s. bind_result (wallFront cfg s)
          (\<lambda>wall s.
             if wall then Returned () (if \<not> crashed s then setCrashed s else s)
             else
               (let destination = forwardDestination cfg s
                in arrive (fst destination) (snd destination)
                     (motionLoop cfg w fuel
                        (forwardCond (getDiscretizedRotation s) (fst destination))
                        forwardSpeeds fuel s))))"

fun rightCond :: "Direction \<Rightarrow> real \<Rightarrow> sim \<Rightarrow> bool" where
  "rightCond NORTH destinationRotation s \<longleftrightarrow>
     destinationRotation < currentRotation s \<or> currentRotation s < Degrees 180"
| "rightCond EAST destinationRotation s \<longleftrightarrow> destinationRotation < currentRotation s"
| "rightCond SOUTH destinationRotation s \<longleftrightarrow> destinationRotation < currentRotation s"
| "rightCond WEST destinationRotation s \<longleftrightarrow> currentRotation s < Degrees 180"

definition turnRight :: "config \<Rightarrow> world \<Rightarrow> nat \<Rightarrow> sim \<Rightarrow> unit result" where
  "turnRight cfg w fuel s =
     bind_result (ensureDiscreteInterface ''turnRight'' s)
       (\<lambda>_ s. let destinationTranslation = currentTranslation s;
                  destinationRotation = Degrees (currentRotation s - Degrees 90)
              in arrive destinationTranslation destinationRotation
                   (motionLoop cfg w fuel
                      (rightCond (getDiscretizedRotation s) destinationRotation)
                      rightSpeeds fuel s))"

fun leftCond :: "Direction \<Rightarrow> real \<Rightarrow> sim \<Rightarrow> bool" where
  "leftCond NORTH destinationRotation s \<longleftrightarrow>
     currentRotation s < destinationRotation \<or> Degrees 180 < currentRotation s"
| "leftCond EAST destinationRotation s \<longleftrightarrow> Degrees 180 < currentRotation s"
| "leftCond SOUTH destinationRotation s \<longleftrightarrow> currentRotation s < destinationRotation"
| "leftCond WEST destinationRotation s \<longleftrightarrow> currentRotation s < destinationRotation"

definition turnLeft :: "config \<Rightarrow> world \<Rightarrow> nat \<Rightarrow> sim \<Rightarrow> unit result" where
  "turnLeft cfg w fuel s =
     bind_result (ensureDiscreteInterface ''turnLeft'' s)
       (\<lambda>_ s. let destinationTranslation = currentTranslation s;
                  destinationRotation = Degrees (currentRotation s + Degrees 90)
              in arrive destinationTranslation destinationRotation
                   (motionLoop cfg w fuel
                      (leftCond (getDiscretizedRotation s) destinationRotation)
                      leftSpeeds fuel s))"

definition turnAround :: "config \<Rightarrow> world \<Rightarrow> nat \<Rightarrow> sim \<Rightarrow> unit result" where
  "turnAround cfg w fuel s =
     bind_result (ensureDiscreteInterface ''turnAround'' s)
       (\<lambda>_ s. bind_result (turnRight cfg w fuel s) (\<lambda>_ s. turnRight cfg w fuel s))"

section \<open>Reference notions of the specification\<close>


text \<open>
  The canonical angle of a heading, and the headings to its right and left in the cyclic
  order NORTH, EAST, SOUTH, WEST.
\<close>

fun canonicalAngle :: "Direction \<Rightarrow> real" where
  "canonicalAngle NORTH = 0"
| "canonicalAngle WEST = 90"
| "canonicalAngle SOUTH = 180"
| "canonicalAngle EAST = 270"

fun rightOf :: "Direction \<Rightarrow> Direction" where
  "rightOf NORTH = EAST"
| "rightOf EAST = SOUTH"
| "rightOf SOUTH = WEST"
| "rightOf WEST = NORTH"

fun leftOf :: "Direction \<Rightarrow> Direction" where
  "leftOf NORTH = WEST"
| "leftOf WEST = SOUTH"
| "leftOf SOUTH = EAST"
| "leftOf EAST = NORTH"

text \<open>
  The wall half that faces a wall from the other side: the north wall of \<open>(x, y)\<close> is the
  south wall of \<open>(x, y + 1)\<close>, the east wall of \<open>(x, y)\<close> the west wall of \<open>(x + 1, y)\<close>, and
  so on.
\<close>

fun opposingHalf :: "int \<times> int \<Rightarrow> Direction \<Rightarrow> (int \<times> int) \<times> Direction" where
  "opposingHalf (x, y) NORTH = ((x, y + 1), SOUTH)"
| "opposingHalf (x, y) EAST = ((x + 1, y), WEST)"
| "opposingHalf (x, y) SOUTH = ((x, y - 1), NORTH)"
| "opposingHalf (x, y) WEST = ((x - 1, y), EAST)"

text \<open>Two right turns, one after the other.\<close>

definition twoRightTurns :: "config \<Rightarrow> world \<Rightarrow> nat \<Rightarrow> sim \<Rightarrow> unit result" where
  "twoRightTurns cfg w fuel s =
     (case turnRight cfg w fuel s of
        Stopped r s1 \<Rightarrow> Stopped r s1
      | Returned u s1 \<Rightarrow> turnRight cfg w fuel s1)"

section \<open>A concrete run\<close>

text \<open>
  A 3 by 3 maze with walls on its border only, tiles of 3/16 m, \<^verbatim>\<open>double\<close> arithmetic, a
  mouse whose initial translation is the centre of tile \<open>(0, 0)\<close>, and a world that moves
  the mouse by 5 cm, or turns it by 40 degrees, in a tick of 5 ms at simulation speed 1.
\<close>

definition example_maze :: Maze where
  "example_maze =
     \<lparr>getWidth = 3, getHeight = 3,
      tileIsWall = (\<lambda>x y d. (d = NORTH \<and> y = 2) \<or> (d = EAST \<and> x = 2)
                             \<or> (d = SOUTH \<and> y = 0) \<or> (d = WEST \<and> x = 0))\<rparr>"

definition example_config :: config where
  "example_config =
     \<lparr>wallLength = 11 / 64, wallWidth = 1 / 64, tileBaseColor = ''DARK_GRAY'',
      declareBothWallHalves = True, algorithmControlsTileFog = True,
      discreteInterfaceDeclareWallOnRead = True, printLateSensorReads = False,
      frameRate = 60, minSleepDuration = 5,
      CHAR_TO_COLOR = [CHR ''r'' \<mapsto> ''RED'', CHR ''g'' \<mapsto> ''GREEN''],
      STRING_TO_COLOR = [''DARK_GRAY'' \<mapsto> ''DARK_GRAY'', ''RED'' \<mapsto> ''RED''],
      CHAR_TO_DIRECTION =
        [CHR ''n'' \<mapsto> NORTH, CHR ''e'' \<mapsto> EAST, CHR ''s'' \<mapsto> SOUTH, CHR ''w'' \<mapsto> WEST],
      DIRECTION_TO_CHAR =
        [NORTH \<mapsto> CHR ''n'', EAST \<mapsto> CHR ''e'', SOUTH \<mapsto> CHR ''s'', WEST \<mapsto> CHR ''w''],
      maze = example_maze, WIN32 = False, double_to_string = (\<lambda>_. ''?''),
      fl = round_double\<rparr>"

definition example_sim :: "InterfaceType \<Rightarrow> real \<times> real \<Rightarrow> real \<Rightarrow> sim" where
  "example_sim mode translation rotation =
     \<lparr>currentTranslation = translation, currentRotation = rotation,
      initialTranslation = (3 / 32, 3 / 32), initialRotation = 0,
      wheelSpeeds = (0, 0), sensors = Map.empty, gyro = 0,
      paused = False, crashed = False, simSpeed = 1, interfaceType = mode,
      inputButtonWasPressed = (\<lambda>_. False), tilesWithColor = {},
      graphic = [], printed = [], warned = [], mouseCalls = [], clock = 0\<rparr>"

definition example_world :: world where
  "example_world =
     \<lparr>elapse = (\<lambda>d s.
        let l = fst (wheelSpeeds s); r = snd (wheelSpeeds s);
            x = fst (currentTranslation s); y = snd (currentTranslation s);
            v = (r - l) / 2 * 10 * d
        in s\<lparr>currentTranslation :=
                (case getDiscretizedRotation s of
                   NORTH \<Rightarrow> (x, y + v) | EAST \<Rightarrow> (x + v, y)
                 | SOUTH \<Rightarrow> (x, y - v) | WEST \<Rightarrow> (x - v, y)),
              currentRotation := Degrees (currentRotation s - (l + r) * 8000 * d)\<rparr>),
      readLatency = (\<lambda>name s. 0.001)\<rparr>"

section \<open>A run at the edge of a tile\<close>





section \<open>Verified properties\<close>

subsection \<open>Rounding in the concrete run\<close>

lemma binary_round_0: "binary_round p 0 = 0"
  by (simp add: binary_round_def)

lemma round_double_0: "round_double 0 = 0"
  by (simp add: round_double_def binary_round_0)

lemma example_rounding:
  "round_double (3 / 16) = 3 / 16"
  "round_double (3 / 32) = 3 / 32"
  "round_double (9 / 32) = 9 / 32"
  "round_double (1 / 2) = 1 / 2"
  "round_double (3 / 2) = 3 / 2"
  "round_double (12 / 25) = 1080863910568919 / 2251799813685248"
  by code_simp+

subsection \<open>Mode enforcement\<close>

text \<open>
  C1. A continuous-only operation (\<^verbatim>\<open>setWheelSpeeds\<close>, \<^verbatim>\<open>read\<close>, \<^verbatim>\<open>readGyro\<close>) called while
  the interface type is not CONTINUOUS, and a discrete-only operation (\<^verbatim>\<open>wallFront\<close>,
  \<^verbatim>\<open>wallLeft\<close>, \<^verbatim>\<open>wallRight\<close>, \<^verbatim>\<open>moveForward\<close>, \<^verbatim>\<open>turnLeft\<close>, \<^verbatim>\<open>turnRight\<close>,
  \<^verbatim>\<open>turnAround\<close>) called while it is not DISCRETE, prints one error line that names the
  operation and the required mode and then ends the run by \<^verbatim>\<open>quit\<close>: nothing else of the
  state changes, whatever the configuration, the world and the iteration bound.
\<close>

theorem mode_mismatch_terminates:
  "(interfaceType s \<noteq> CONTINUOUS \<longrightarrow>
      setWheelSpeeds l r s
        = Stopped QuitCalled (print (mode_error ''CONTINUOUS'' ''setWheelSpeeds'') s)
      \<and> read cfg w name s = Stopped QuitCalled (print (mode_error ''CONTINUOUS'' ''read'') s)
      \<and> readGyro s = Stopped QuitCalled (print (mode_error ''CONTINUOUS'' ''readGyro'') s))
   \<and> (interfaceType s \<noteq> DISCRETE \<longrightarrow>
      wallFront cfg s = Stopped QuitCalled (print (mode_error ''DISCRETE'' ''wallFront'') s)
      \<and> wallLeft cfg s = Stopped QuitCalled (print (mode_error ''DISCRETE'' ''wallLeft'') s)
      \<and> wallRight cfg s = Stopped QuitCalled (print (mode_error ''DISCRETE'' ''wallRight'') s)
      \<and> moveForward cfg w fuel s
          = Stopped QuitCalled (print (mode_error ''DISCRETE'' ''moveForward'') s)
      \<and> turnLeft cfg w fuel s
          = Stopped QuitCalled (print (mode_error ''DISCRETE'' ''turnLeft'') s)
      \<and> turnRight cfg w fuel s
          = Stopped QuitCalled (print (mode_error ''DISCRETE'' ''turnRight'') s)
      \<and> turnAround cfg w fuel s
          = Stopped QuitCalled (print (mode_error ''DISCRETE'' ''turnAround'') s))"
  by (simp add: setWheelSpeeds_def read_def readGyro_def wallFront_def wallLeft_def
      wallRight_def moveForward_def turnLeft_def turnRight_def turnAround_def
      ensureContinuousInterface_def ensureDiscreteInterface_def)

theorem mode_mismatch_terminates_witness:
  "interfaceType (example_sim DISCRETE (0.09, 0.09) 0) \<noteq> CONTINUOUS
   \<and> readGyro (example_sim DISCRETE (0.09, 0.09) 0)
       = Stopped QuitCalled
           ((example_sim DISCRETE (0.09, 0.09) 0)
              \<lparr>printed := [''Error: You must declare the interface type to be sim::InterfaceType::CONTINUOUS to use MouseInterface::readGyro().'']\<rparr>)
   \<and> interfaceType (example_sim CONTINUOUS (0.09, 0.09) 0) \<noteq> DISCRETE
   \<and> moveForward example_config example_world 10 (example_sim CONTINUOUS (0.09, 0.09) 0)
       = Stopped QuitCalled
           ((example_sim CONTINUOUS (0.09, 0.09) 0)
              \<lparr>printed := [''Error: You must declare the interface type to be sim::InterfaceType::DISCRETE to use MouseInterface::moveForward().'']\<rparr>)"
  using mode_mismatch_terminates [of "example_sim DISCRETE (0.09, 0.09) 0"]
    mode_mismatch_terminates [of "example_sim CONTINUOUS (0.09, 0.09) 0" _ _ example_config
      example_world _ 10]
  by (simp add: example_sim_def print_def mode_error_def)

subsection \<open>Crashing into a wall\<close>

text \<open>
  A wall query that returns has only added to what the facade emitted (graphic calls and
  printed lines), and it returns the same answer from every state with the same mode and
  pose.
\<close>

lemma getOpposingWall_Some:
  "hasOpposingWall cfg x y d \<Longrightarrow> \<exists>opp. getOpposingWall cfg x y d = Some opp"
  by (simp add: getOpposingWall_def)

lemma declareWall_returns:
  "\<exists>g p. declareWall cfg x y c b s = Returned () (s\<lparr>graphic := g, printed := p\<rparr>)"
proof (cases "withinMaze cfg x y")
  case False
  have "declareWall cfg x y c b s
        = Returned () (s\<lparr>graphic := graphic s,
             printed := printed s @ [no_tile_error x y ''declare any of its walls.'']\<rparr>)"
    using False by (simp add: declareWall_def print_def)
  then show ?thesis by blast
next
  case True
  show ?thesis
  proof (cases "CHAR_TO_DIRECTION cfg c")
    case None
    have "declareWall cfg x y c b s
          = Returned () (s\<lparr>graphic := graphic s,
               printed := printed s @ [no_direction_error c]\<rparr>)"
      using True None by (simp add: declareWall_def print_def)
    then show ?thesis by blast
  next
    case (Some d)
    show ?thesis
    proof (cases "declareBothWallHalves cfg \<and> hasOpposingWall cfg x y d")
      case False
      have "declareWall cfg x y c b s
            = Returned () (s\<lparr>graphic := graphic s @ [GDeclareWall x y d b],
                 printed := printed s\<rparr>)"
        using True Some False by (auto simp add: declareWall_def graphic_do_def)
      then show ?thesis by blast
    next
      case both: True
      then obtain opp where opp: "getOpposingWall cfg x y d = Some opp"
        using getOpposingWall_Some by blast
      have "declareWall cfg x y c b s
            = Returned () (s\<lparr>graphic := graphic s @ [GDeclareWall x y d b]
                   @ [GDeclareWall (fst (fst opp)) (snd (fst opp)) (snd opp) b],
                 printed := printed s\<rparr>)"
        using True Some both opp by (simp add: declareWall_def graphic_do_def)
      then show ?thesis by blast
    qed
  qed
qed

lemma isWall_Returned:
  assumes "isWall cfg pos d s = Returned b s1"
  shows "(\<exists>g p. s1 = s\<lparr>graphic := g, printed := p\<rparr>)
         \<and> (\<forall>s'. \<exists>g p. isWall cfg pos d s' = Returned b (s'\<lparr>graphic := g, printed := p\<rparr>))"
proof -
  have inside: "0 \<le> fst pos \<and> fst pos < getWidth (maze cfg)
                \<and> 0 \<le> snd pos \<and> snd pos < getHeight (maze cfg)"
    using assms by (auto simp add: isWall_def split: if_splits)
  show ?thesis
  proof (cases "discreteInterfaceDeclareWallOnRead cfg")
    case False
    have "\<And>t. isWall cfg pos d t
             = Returned (tileIsWall (maze cfg) (fst pos) (snd pos) d)
                 (t\<lparr>graphic := graphic t, printed := printed t\<rparr>)"
      using inside False by (simp add: isWall_def)
    then show ?thesis using assms by (metis result.inject(2))
  next
    case True
    then obtain c where c: "DIRECTION_TO_CHAR cfg d = Some c"
      using assms inside by (auto simp add: isWall_def Let_def split: option.splits)
    have eq: "\<And>t. \<exists>g p. isWall cfg pos d t
             = Returned (tileIsWall (maze cfg) (fst pos) (snd pos) d)
                 (t\<lparr>graphic := g, printed := p\<rparr>)"
    proof -
      fix t
      obtain g p where "declareWall cfg (fst pos) (snd pos) c
           (tileIsWall (maze cfg) (fst pos) (snd pos) d) t
         = Returned () (t\<lparr>graphic := g, printed := p\<rparr>)"
        using declareWall_returns by blast
      then have "isWall cfg pos d t
             = Returned (tileIsWall (maze cfg) (fst pos) (snd pos) d)
                 (t\<lparr>graphic := g, printed := p\<rparr>)"
        using inside True c by (simp add: isWall_def)
      then show "\<exists>g p. isWall cfg pos d t
             = Returned (tileIsWall (maze cfg) (fst pos) (snd pos) d)
                 (t\<lparr>graphic := g, printed := p\<rparr>)" by blast
    qed
    show ?thesis using eq assms by (metis result.inject(2))
  qed
qed

lemma wallFront_Returned:
  assumes "wallFront cfg s = Returned b s1"
  shows "interfaceType s = DISCRETE \<and> (\<exists>g p. s1 = s\<lparr>graphic := g, printed := p\<rparr>)
         \<and> (\<forall>s'. interfaceType s' = DISCRETE
                \<and> currentTranslation s' = currentTranslation s
                \<and> currentRotation s' = currentRotation s
              \<longrightarrow> (\<exists>g p. wallFront cfg s' = Returned b (s'\<lparr>graphic := g, printed := p\<rparr>)))"
proof -
  have mode: "interfaceType s = DISCRETE"
    using assms by (auto simp add: wallFront_def ensureDiscreteInterface_def split: if_splits)
  then have w: "isWall cfg (getDiscretizedTranslation cfg s) (getDiscretizedRotation s) s
                = Returned b s1"
    using assms by (simp add: wallFront_def ensureDiscreteInterface_def)
  from isWall_Returned [OF w] obtain g p where
    s1: "s1 = s\<lparr>graphic := g, printed := p\<rparr>" and
    any: "\<And>s'. \<exists>g p. isWall cfg (getDiscretizedTranslation cfg s) (getDiscretizedRotation s) s'
                  = Returned b (s'\<lparr>graphic := g, printed := p\<rparr>)"
    by blast
  have "\<exists>g p. wallFront cfg s' = Returned b (s'\<lparr>graphic := g, printed := p\<rparr>)"
    if "interfaceType s' = DISCRETE" and "currentTranslation s' = currentTranslation s"
      and "currentRotation s' = currentRotation s" for s'
  proof -
    have "wallFront cfg s'
          = isWall cfg (getDiscretizedTranslation cfg s) (getDiscretizedRotation s) s'"
      using that
      by (simp add: wallFront_def ensureDiscreteInterface_def getDiscretizedTranslation_def
          getDiscretizedRotation_def)
    then show ?thesis using any [of s'] by simp
  qed
  then show ?thesis using mode s1 by blast
qed

text \<open>
  C3. In every state in which \<^verbatim>\<open>wallFront()\<close> returns true, \<^verbatim>\<open>moveForward()\<close> returns, for
  every world and iteration bound, with the crashed flag set and the mouse's translation
  and rotation unchanged; a second \<^verbatim>\<open>moveForward()\<close> from the resulting state returns as
  well, with the flag still set and the pose still that of the start.
\<close>

theorem moveForward_into_wall:
  assumes "wallFront cfg s = Returned True s1"
  shows "\<exists>s2 s3. moveForward cfg w fuel s = Returned () s2
           \<and> crashed s2
           \<and> currentTranslation s2 = currentTranslation s
           \<and> currentRotation s2 = currentRotation s
           \<and> moveForward cfg w fuel s2 = Returned () s3
           \<and> crashed s3
           \<and> currentTranslation s3 = currentTranslation s
           \<and> currentRotation s3 = currentRotation s"
proof -
  from wallFront_Returned [OF assms] obtain g p where
    mode: "interfaceType s = DISCRETE" and s1: "s1 = s\<lparr>graphic := g, printed := p\<rparr>" and
    again: "\<And>s'. interfaceType s' = DISCRETE \<Longrightarrow> currentTranslation s' = currentTranslation s
              \<Longrightarrow> currentRotation s' = currentRotation s
              \<Longrightarrow> \<exists>g p. wallFront cfg s' = Returned True (s'\<lparr>graphic := g, printed := p\<rparr>)"
    by blast
  define s2 where "s2 = (if \<not> crashed s1 then setCrashed s1 else s1)"
  have first: "moveForward cfg w fuel s = Returned () s2"
    using assms mode by (simp add: moveForward_def ensureDiscreteInterface_def s2_def)
  have c2: "crashed s2" by (simp add: s2_def setCrashed_def)
  have m2: "interfaceType s2 = DISCRETE" using mode by (simp add: s2_def s1 setCrashed_def)
  have t2: "currentTranslation s2 = currentTranslation s"
    by (simp add: s2_def s1 setCrashed_def)
  have r2: "currentRotation s2 = currentRotation s"
    by (simp add: s2_def s1 setCrashed_def)
  from again [OF m2 t2 r2] obtain g' p' where
    w2: "wallFront cfg s2 = Returned True (s2\<lparr>graphic := g', printed := p'\<rparr>)" by blast
  have second: "moveForward cfg w fuel s2 = Returned () (s2\<lparr>graphic := g', printed := p'\<rparr>)"
    using w2 m2 c2 by (simp add: moveForward_def ensureDiscreteInterface_def)
  show ?thesis
    using first second c2 t2 r2 by simp
qed

theorem moveForward_into_wall_witness:
  "wallFront example_config (example_sim DISCRETE (0.09, 0.09) 180)
     = Returned True
         ((example_sim DISCRETE (0.09, 0.09) 180)\<lparr>graphic := [GDeclareWall 0 0 SOUTH True]\<rparr>)
   \<and> (\<exists>s2 s3. moveForward example_config example_world 10 (example_sim DISCRETE (0.09, 0.09) 180)
               = Returned () s2
           \<and> crashed s2
           \<and> currentTranslation s2 = (0.09, 0.09)
           \<and> currentRotation s2 = 180
           \<and> moveForward example_config example_world 10 s2 = Returned () s3
           \<and> crashed s3
           \<and> currentTranslation s3 = (0.09, 0.09)
           \<and> currentRotation s3 = 180)"
proof -
  have h: "wallFront example_config (example_sim DISCRETE (0.09, 0.09) 180)
     = Returned True
         ((example_sim DISCRETE (0.09, 0.09) 180)\<lparr>graphic := [GDeclareWall 0 0 SOUTH True]\<rparr>)"
    by (simp add: wallFront_def ensureDiscreteInterface_def isWall_def declareWall_def
        getDiscretizedTranslation_def getDiscretizedRotation_def example_sim_def
        example_config_def example_maze_def withinMaze_def graphic_do_def tileLength_def
        example_rounding)
  have t: "currentTranslation (example_sim DISCRETE (0.09, 0.09) 180) = (0.09, 0.09)"
    by (simp add: example_sim_def)
  have r: "currentRotation (example_sim DISCRETE (0.09, 0.09) 180) = 180"
    by (simp add: example_sim_def)
  from moveForward_into_wall [OF h, of example_world 10] have
    "\<exists>s2 s3. moveForward example_config example_world 10 (example_sim DISCRETE (0.09, 0.09) 180)
               = Returned () s2
           \<and> crashed s2
           \<and> currentTranslation s2 = (0.09, 0.09)
           \<and> currentRotation s2 = 180
           \<and> moveForward example_config example_world 10 s2 = Returned () s3
           \<and> crashed s3
           \<and> currentTranslation s3 = (0.09, 0.09)
           \<and> currentRotation s3 = 180"
    unfolding t r .
  with h show ?thesis by (rule conjI)
qed

subsection \<open>Position reset and input buttons\<close>

text \<open>
  C10. \<^verbatim>\<open>resetPosition()\<close> returns after one teleport to the mouse's initial translation
  with rotation exactly 0, from every pose and whatever the mouse's initial rotation is;
  nothing else changes.
\<close>

theorem resetPosition_zero_rotation:
  "resetPosition s
     = Returned ()
         (s\<lparr>currentTranslation := initialTranslation s, currentRotation := 0,
            mouseCalls := mouseCalls s @ [CallTeleport (initialTranslation s) 0]\<rparr>)"
  by (simp add: resetPosition_def teleport_def Degrees_def)

text \<open>
  C8. For a button number \<open>k\<close> from 0 to 9, \<^verbatim>\<open>acknowledgeInputButtonPressed(k)\<close> returns
  with the flag of button \<open>k\<close> false, and \<^verbatim>\<open>inputButtonPressed(k)\<close> then returns false and
  leaves the state as it is. For \<open>k\<close> outside that range, \<^verbatim>\<open>inputButtonPressed(k)\<close> returns
  false and \<^verbatim>\<open>acknowledgeInputButtonPressed(k)\<close> returns, each having printed one error
  line and changed no button flag.
\<close>

theorem input_button_round_trip:
  "(0 \<le> k \<and> k \<le> 9 \<longrightarrow>
      (\<exists>s1. acknowledgeInputButtonPressed k s = Returned () s1
         \<and> \<not> inputButtonWasPressed s1 k
         \<and> inputButtonPressed k s1 = Returned False s1))
   \<and> (k < 0 \<or> 9 < k \<longrightarrow>
      inputButtonPressed k s
        = Returned False
            (print (no_button_error k ''check to see if it has been pressed.'') s)
      \<and> acknowledgeInputButtonPressed k s
        = Returned ()
            (print (no_button_error k ''acknowledge that it has been pressed.'') s)
      \<and> inputButtonWasPressed
            (print (no_button_error k ''acknowledge that it has been pressed.'') s)
          = inputButtonWasPressed s)"
  by (simp add: acknowledgeInputButtonPressed_def inputButtonPressed_def
      setInputButtonWasPressed_def print_def)

theorem input_button_round_trip_witness:
  "(0::int) \<le> 3 \<and> (3::int) \<le> 9
   \<and> inputButtonWasPressed
        ((example_sim DISCRETE (0.09, 0.09) 0)\<lparr>inputButtonWasPressed := (\<lambda>k. k = 3)\<rparr>) 3
   \<and> (\<exists>s1. acknowledgeInputButtonPressed 3
               ((example_sim DISCRETE (0.09, 0.09) 0)\<lparr>inputButtonWasPressed := (\<lambda>k. k = 3)\<rparr>)
             = Returned () s1
         \<and> \<not> inputButtonWasPressed s1 3
         \<and> inputButtonPressed 3 s1 = Returned False s1)
   \<and> (9::int) < 10
   \<and> inputButtonPressed 10 (example_sim DISCRETE (0.09, 0.09) 0)
       = Returned False
           ((example_sim DISCRETE (0.09, 0.09) 0)
              \<lparr>printed := [''Error: There is no input button with the number 10, and thus you cannot check to see if it has been pressed.'']\<rparr>)"
  using input_button_round_trip
      [of 3 "(example_sim DISCRETE (0.09, 0.09) 0)\<lparr>inputButtonWasPressed := (\<lambda>k. k = 3)\<rparr>"]
    input_button_round_trip [of 10 "example_sim DISCRETE (0.09, 0.09) 0"]
  by (simp add: example_sim_def print_def no_button_error_def to_string_def)

subsection \<open>Tile annotation\<close>

text \<open>Inside the maze, the code's neighbour test is membership of the opposing tile.\<close>

lemma hasOpposingWall_iff:
  "withinMaze cfg x y \<Longrightarrow>
     hasOpposingWall cfg x y d
       \<longleftrightarrow> withinMaze cfg (fst (fst (opposingHalf (x, y) d))) (snd (fst (opposingHalf (x, y) d)))"
  by (cases d) (auto simp add: withinMaze_def)

lemma getOpposingWall_opposingHalf:
  "hasOpposingWall cfg x y d \<Longrightarrow> getOpposingWall cfg x y d = Some (opposingHalf (x, y) d)"
  by (cases d) (simp_all add: getOpposingWall_def)

text \<open>
  C6. With the both-wall-halves flag enabled, \<^verbatim>\<open>declareWall\<close> on a tile \<open>(x, y)\<close> of the maze
  and a mapped direction character issues the declaration on \<open>(x, y)\<close> and then the same
  declaration (same wall-exists value) on the opposing tile and direction exactly when
  that tile lies in the maze, and nothing more; \<^verbatim>\<open>undeclareWall\<close> does the same with
  undeclarations.
\<close>

theorem declare_both_wall_halves:
  assumes "declareBothWallHalves cfg" and "withinMaze cfg x y"
    and "CHAR_TO_DIRECTION cfg c = Some d"
  shows "declareWall cfg x y c b s
           = Returned ()
               (s\<lparr>graphic := graphic s @ [GDeclareWall x y d b]
                    @ (if withinMaze cfg (fst (fst (opposingHalf (x, y) d)))
                            (snd (fst (opposingHalf (x, y) d)))
                       then [GDeclareWall (fst (fst (opposingHalf (x, y) d)))
                               (snd (fst (opposingHalf (x, y) d)))
                               (snd (opposingHalf (x, y) d)) b]
                       else [])\<rparr>)
         \<and> undeclareWall cfg x y c s
           = Returned ()
               (s\<lparr>graphic := graphic s @ [GUndeclareWall x y d]
                    @ (if withinMaze cfg (fst (fst (opposingHalf (x, y) d)))
                            (snd (fst (opposingHalf (x, y) d)))
                       then [GUndeclareWall (fst (fst (opposingHalf (x, y) d)))
                               (snd (fst (opposingHalf (x, y) d)))
                               (snd (opposingHalf (x, y) d))]
                       else [])\<rparr>)"
proof (cases "hasOpposingWall cfg x y d")
  case True
  then have inside: "withinMaze cfg (fst (fst (opposingHalf (x, y) d)))
      (snd (fst (opposingHalf (x, y) d)))"
    using hasOpposingWall_iff [OF assms(2)] by simp
  show ?thesis
    using assms True inside getOpposingWall_opposingHalf [OF True]
    by (simp add: declareWall_def undeclareWall_def graphic_do_def)
next
  case False
  then have outside: "\<not> withinMaze cfg (fst (fst (opposingHalf (x, y) d)))
      (snd (fst (opposingHalf (x, y) d)))"
    using hasOpposingWall_iff [OF assms(2)] by simp
  show ?thesis
    using assms False outside
    by (simp add: declareWall_def undeclareWall_def graphic_do_def)
qed

theorem declare_both_wall_halves_witness:
  "declareBothWallHalves example_config \<and> withinMaze example_config 0 1
   \<and> withinMaze example_config 0 2
   \<and> CHAR_TO_DIRECTION example_config CHR ''n'' = Some NORTH
   \<and> declareWall example_config 0 1 CHR ''n'' True (example_sim DISCRETE (0.09, 0.09) 0)
       = Returned ()
           ((example_sim DISCRETE (0.09, 0.09) 0)
              \<lparr>graphic := [GDeclareWall 0 1 NORTH True, GDeclareWall 0 2 SOUTH True]\<rparr>)
   \<and> undeclareWall example_config 0 2 CHR ''n'' (example_sim DISCRETE (0.09, 0.09) 0)
       = Returned ()
           ((example_sim DISCRETE (0.09, 0.09) 0)\<lparr>graphic := [GUndeclareWall 0 2 NORTH]\<rparr>)"
proof -
  have flag: "declareBothWallHalves example_config"
    by (simp add: example_config_def)
  have in1: "withinMaze example_config 0 1"
    by (simp add: withinMaze_def example_config_def example_maze_def)
  have in2: "withinMaze example_config 0 2"
    by (simp add: withinMaze_def example_config_def example_maze_def)
  have out: "\<not> withinMaze example_config 0 3"
    by (simp add: withinMaze_def example_config_def example_maze_def)
  have dir: "CHAR_TO_DIRECTION example_config CHR ''n'' = Some NORTH"
    by (simp add: example_config_def)
  show ?thesis
    using flag in1 in2 out dir
      declare_both_wall_halves [OF flag in1 dir, of True "example_sim DISCRETE (0.09, 0.09) 0"]
      declare_both_wall_halves [OF flag in2 dir, of True "example_sim DISCRETE (0.09, 0.09) 0"]
    by (simp add: example_sim_def)
qed

text \<open>
  C9 (as the code has it). On invalid input (a cell outside the maze, or a character
  that is not mapped to a colour or a direction) each of the seven tile-annotation
  operations returns normally and changes no annotation or simulation state. The five
  wall, fog and distance operations print one error line. \<^verbatim>\<open>setTileColor\<close> and
  \<^verbatim>\<open>clearTileColor\<close> give one warning to the logger in a build without \<^verbatim>\<open>_WIN32\<close>; in a
  build with \<^verbatim>\<open>_WIN32\<close> they emit nothing.
\<close>

theorem invalid_annotation_input:
  "(\<not> withinMaze cfg x y \<longrightarrow>
      setTileColor cfg x y c s
        = Returned ()
            (if WIN32 cfg then s
             else warn (''There is no tile at position '' @ tile_text x y
                        @ '' and thus you cannot set its color.'') s)
      \<and> clearTileColor cfg x y s
        = Returned ()
            (if WIN32 cfg then s
             else warn (''There is no tile at position '' @ tile_text x y
                        @ '' and thus you cannot clear its color.'') s)
      \<and> declareWall cfg x y c b s
        = Returned () (print (no_tile_error x y ''declare any of its walls.'') s)
      \<and> undeclareWall cfg x y c s
        = Returned () (print (no_tile_error x y ''undeclare any of its walls.'') s)
      \<and> setTileFogginess cfg x y b s
        = Returned () (print (no_tile_error x y ''set its fogginess.'') s)
      \<and> declareTileDistance cfg x y n s
        = Returned () (print (no_tile_error x y ''set its distance.'') s)
      \<and> undeclareTileDistance cfg x y s
        = Returned () (print (no_tile_error x y ''clear its distance.'') s))
   \<and> (withinMaze cfg x y \<and> CHAR_TO_COLOR cfg c = None \<longrightarrow>
      setTileColor cfg x y c s
        = Returned ()
            (if WIN32 cfg then s
             else warn (''You cannot set the color of tile '' @ tile_text x y @ '' to ''
                        @ [CHR 0x27] @ [c] @ [CHR 0x27] @ '' since '' @ [CHR 0x27] @ [c]
                        @ [CHR 0x27] @ '' is not mapped to a color.'') s))
   \<and> (withinMaze cfg x y \<and> CHAR_TO_DIRECTION cfg c = None \<longrightarrow>
      declareWall cfg x y c b s = Returned () (print (no_direction_error c) s)
      \<and> undeclareWall cfg x y c s = Returned () (print (no_direction_error c) s))"
  by (simp add: setTileColor_def clearTileColor_def declareWall_def undeclareWall_def
      setTileFogginess_def declareTileDistance_def undeclareTileDistance_def)

theorem invalid_annotation_input_witness:
  "\<not> withinMaze example_config 5 (- 1)
   \<and> setTileColor example_config 5 (- 1) CHR ''r'' (example_sim DISCRETE (0.09, 0.09) 0)
       = Returned ()
           ((example_sim DISCRETE (0.09, 0.09) 0)
              \<lparr>warned := [''There is no tile at position (5, -1) and thus you cannot set its color.'']\<rparr>)
   \<and> withinMaze example_config 1 1
   \<and> CHAR_TO_COLOR example_config CHR ''x'' = None
   \<and> CHAR_TO_DIRECTION example_config CHR ''x'' = None
   \<and> setTileColor example_config 1 1 CHR ''x'' (example_sim DISCRETE (0.09, 0.09) 0)
       = Returned ()
           ((example_sim DISCRETE (0.09, 0.09) 0)
              \<lparr>warned := [''You cannot set the color of tile (1, 1) to 'x' since 'x' is not mapped to a color.'']\<rparr>)
   \<and> declareWall example_config 1 1 CHR ''x'' True (example_sim DISCRETE (0.09, 0.09) 0)
       = Returned ()
           ((example_sim DISCRETE (0.09, 0.09) 0)
              \<lparr>printed := [''The character 'x' is not mapped to a valid direction.'']\<rparr>)"
proof -
  have out: "\<not> withinMaze example_config 5 (- 1)"
    by (simp add: withinMaze_def example_config_def example_maze_def)
  have inside: "withinMaze example_config 1 1"
    by (simp add: withinMaze_def example_config_def example_maze_def)
  have col: "CHAR_TO_COLOR example_config CHR ''x'' = None"
    by (simp add: example_config_def)
  have dir: "CHAR_TO_DIRECTION example_config CHR ''x'' = None"
    by (simp add: example_config_def)
  have win: "\<not> WIN32 example_config"
    by (simp add: example_config_def)
  show ?thesis
    using out inside col dir win
      invalid_annotation_input [of example_config 5 "- 1" "CHR ''r''"
        "example_sim DISCRETE (0.09, 0.09) 0"]
      invalid_annotation_input [of example_config 1 1 "CHR ''x''"
        "example_sim DISCRETE (0.09, 0.09) 0" True]
    by (simp add: warn_def print_def example_sim_def tile_text_def to_string_def
        no_direction_error_def)
qed

text \<open>
  C9 as stated fails: in a build with \<^verbatim>\<open>_WIN32\<close>, \<^verbatim>\<open>setTileColor\<close> on a cell outside the
  maze returns with the state exactly as it was, so no message has been logged or printed.
\<close>

theorem invalid_annotation_input_counterexample:
  "\<not> withinMaze (example_config\<lparr>WIN32 := True\<rparr>) 5 (- 1)
   \<and> setTileColor (example_config\<lparr>WIN32 := True\<rparr>) 5 (- 1) CHR ''r''
         (example_sim DISCRETE (0.09, 0.09) 0)
       = Returned () (example_sim DISCRETE (0.09, 0.09) 0)
   \<and> warned (example_sim DISCRETE (0.09, 0.09) 0) = []
   \<and> printed (example_sim DISCRETE (0.09, 0.09) 0) = []"
  by (simp add: setTileColor_def withinMaze_def example_config_def example_maze_def
      example_sim_def)

subsection \<open>Motion loops\<close>

lemma arrive_Returned:
  assumes "arrive t r res = Returned u s'"
  shows "\<exists>s1. res = Returned () s1 \<and> s' = teleport t r (mouse_setWheelSpeeds 0 0 s1)"
  using assms by (cases res) (auto simp add: arrive_def)

lemma sleep_mouseCalls: "mouseCalls (sleep w d s) = mouseCalls s"
  by (simp add: sleep_def Let_def)

lemma waitWhilePaused_mouseCalls:
  "waitWhilePaused cfg w n s = Returned u s1 \<Longrightarrow> mouseCalls s1 = mouseCalls s"
proof (induction n arbitrary: s)
  case 0
  then show ?case by (simp split: if_splits)
next
  case (Suc n)
  show ?case
  proof (cases "paused s")
    case True
    then have "waitWhilePaused cfg w n (sleep w (minSleepDuration cfg / 1000) s) = Returned u s1"
      using Suc.prems by simp
    then show ?thesis using Suc.IH sleep_mouseCalls by metis
  next
    case False
    then show ?thesis using Suc.prems by simp
  qed
qed

lemma checkPaused_mouseCalls:
  assumes "checkPaused cfg w fuel s = Returned u s1"
  shows "\<exists>pre. mouseCalls s1 = mouseCalls s @ pre
           \<and> (\<forall>c \<in> set pre. \<exists>l r. c = CallSetWheelSpeeds l r)"
proof (cases "paused s")
  case True
  then have "waitWhilePaused cfg w fuel (mouse_setWheelSpeeds 0 0 s) = Returned u s1"
    using assms by (simp add: checkPaused_def)
  then have "mouseCalls s1 = mouseCalls s @ [CallSetWheelSpeeds 0 0]"
    using waitWhilePaused_mouseCalls by (fastforce simp add: mouse_setWheelSpeeds_def)
  then show ?thesis by simp
next
  case False
  then have "s1 = s" using assms by (simp add: checkPaused_def)
  then show ?thesis by simp
qed

text \<open>
  A motion loop that returns has left its condition false and has given the mouse
  wheel-speed commands only.
\<close>

lemma motionLoop_Returned:
  "motionLoop cfg w fuel cond speeds n s = Returned u s1 \<Longrightarrow>
     \<not> cond s1
     \<and> (\<exists>pre. mouseCalls s1 = mouseCalls s @ pre
            \<and> (\<forall>c \<in> set pre. \<exists>l r. c = CallSetWheelSpeeds l r))"
proof (induction n arbitrary: s)
  case 0
  then have "s1 = s" and "\<not> cond s" by (simp_all split: if_splits)
  then show ?case by simp
next
  case (Suc n)
  show ?case
  proof (cases "cond s")
    case False
    then have "s1 = s" using Suc.prems by simp
    then show ?thesis using False by simp
  next
    case True
    then obtain s2 where
      cp: "checkPaused cfg w fuel s = Returned () s2" and
      rest: "motionLoop cfg w fuel cond speeds n
               (sleep w (minSleepDuration cfg / 1000)
                  (mouse_setWheelSpeeds (fst (speeds s2)) (snd (speeds s2)) s2))
             = Returned u s1"
      using Suc.prems by (cases "checkPaused cfg w fuel s") auto
    from checkPaused_mouseCalls [OF cp] obtain pre1 where
      p1: "mouseCalls s2 = mouseCalls s @ pre1"
        "\<forall>c \<in> set pre1. \<exists>l r. c = CallSetWheelSpeeds l r" by blast
    from Suc.IH [OF rest] obtain pre2 where
      stop: "\<not> cond s1" and
      p2: "mouseCalls s1
            = mouseCalls (sleep w (minSleepDuration cfg / 1000)
                (mouse_setWheelSpeeds (fst (speeds s2)) (snd (speeds s2)) s2)) @ pre2"
        "\<forall>c \<in> set pre2. \<exists>l r. c = CallSetWheelSpeeds l r" by blast
    have "mouseCalls s1
          = mouseCalls s
            @ (pre1 @ [CallSetWheelSpeeds (fst (speeds s2)) (snd (speeds s2))] @ pre2)"
      using p1(1) p2(1) by (simp add: sleep_mouseCalls mouse_setWheelSpeeds_def)
    moreover have "\<forall>c \<in> set (pre1 @ [CallSetWheelSpeeds (fst (speeds s2)) (snd (speeds s2))]
        @ pre2). \<exists>l r. c = CallSetWheelSpeeds l r"
      using p1(2) p2(2) by auto
    ultimately show ?thesis using stop by blast
  qed
qed

text \<open>The three motion operations, when they return after a loop.\<close>

lemma turnRight_Returned:
  assumes "turnRight cfg w fuel s = Returned u s'"
  shows "interfaceType s = DISCRETE
         \<and> (\<exists>s1. motionLoop cfg w fuel
                    (rightCond (getDiscretizedRotation s) (Degrees (currentRotation s - 90)))
                    rightSpeeds fuel s = Returned () s1
               \<and> s' = teleport (currentTranslation s) (Degrees (currentRotation s - 90))
                        (mouse_setWheelSpeeds 0 0 s1))"
proof -
  have mode: "interfaceType s = DISCRETE"
    using assms by (auto simp add: turnRight_def ensureDiscreteInterface_def split: if_splits)
  have d90: "Degrees 90 = 90" by (simp add: Degrees_def)
  have "arrive (currentTranslation s) (Degrees (currentRotation s - 90))
          (motionLoop cfg w fuel
             (rightCond (getDiscretizedRotation s) (Degrees (currentRotation s - 90)))
             rightSpeeds fuel s) = Returned u s'"
    using assms mode by (simp add: turnRight_def ensureDiscreteInterface_def d90 Let_def)
  from arrive_Returned [OF this] show ?thesis using mode by blast
qed

lemma turnLeft_Returned:
  assumes "turnLeft cfg w fuel s = Returned u s'"
  shows "interfaceType s = DISCRETE
         \<and> (\<exists>s1. motionLoop cfg w fuel
                    (leftCond (getDiscretizedRotation s) (Degrees (currentRotation s + 90)))
                    leftSpeeds fuel s = Returned () s1
               \<and> s' = teleport (currentTranslation s) (Degrees (currentRotation s + 90))
                        (mouse_setWheelSpeeds 0 0 s1))"
proof -
  have mode: "interfaceType s = DISCRETE"
    using assms by (auto simp add: turnLeft_def ensureDiscreteInterface_def split: if_splits)
  have d90: "Degrees 90 = 90" by (simp add: Degrees_def)
  have "arrive (currentTranslation s) (Degrees (currentRotation s + 90))
          (motionLoop cfg w fuel
             (leftCond (getDiscretizedRotation s) (Degrees (currentRotation s + 90)))
             leftSpeeds fuel s) = Returned u s'"
    using assms mode by (simp add: turnLeft_def ensureDiscreteInterface_def d90 Let_def)
  from arrive_Returned [OF this] show ?thesis using mode by blast
qed

lemma moveForward_Returned:
  assumes "wallFront cfg s = Returned False s0" and "moveForward cfg w fuel s = Returned u s'"
  shows "\<exists>s1. motionLoop cfg w fuel
                 (forwardCond (getDiscretizedRotation s) (fst (forwardDestination cfg s)))
                 forwardSpeeds fuel s0 = Returned () s1
            \<and> s' = teleport (fst (forwardDestination cfg s)) (snd (forwardDestination cfg s))
                     (mouse_setWheelSpeeds 0 0 s1)"
proof -
  from wallFront_Returned [OF assms(1)] obtain g p where
    mode: "interfaceType s = DISCRETE" and s0: "s0 = s\<lparr>graphic := g, printed := p\<rparr>"
    by blast
  have rot: "getDiscretizedRotation s0 = getDiscretizedRotation s"
    by (simp add: s0 getDiscretizedRotation_def)
  have dest: "forwardDestination cfg s0 = forwardDestination cfg s"
    by (simp add: s0 forwardDestination_def getDiscretizedRotation_def
        getDiscretizedTranslation_def)
  have "arrive (fst (forwardDestination cfg s)) (snd (forwardDestination cfg s))
          (motionLoop cfg w fuel
             (forwardCond (getDiscretizedRotation s) (fst (forwardDestination cfg s)))
             forwardSpeeds fuel s0) = Returned u s'"
    using assms mode by (simp add: moveForward_def ensureDiscreteInterface_def Let_def rot dest)
  from arrive_Returned [OF this] show ?thesis .
qed

text \<open>
  C5. In DISCRETE mode \<^verbatim>\<open>turnAround()\<close> is two \<^verbatim>\<open>turnRight()\<close> calls in sequence: the two
  have the same outcome and the same final state (pose, commands given to the mouse, and
  everything else), for every world and iteration bound.
\<close>

theorem turnAround_two_right_turns:
  "interfaceType s = DISCRETE \<Longrightarrow> turnAround cfg w fuel s = twoRightTurns cfg w fuel s"
  by (cases "turnRight cfg w fuel s")
    (simp_all add: turnAround_def twoRightTurns_def ensureDiscreteInterface_def)

text \<open>The example run, evaluated: two right turns, a left turn and a move.\<close>

lemmas example_defs =
  turnAround_def turnRight_def turnLeft_def moveForward_def wallFront_def isWall_def
  declareWall_def ensureDiscreteInterface_def arrive_def checkPaused_def sleep_def
  mouse_setWheelSpeeds_def teleport_def getDiscretizedRotation_def
  getDiscretizedTranslation_def rightSpeeds_def leftSpeeds_def forwardSpeeds_def
  forwardDestination_def Degrees_def example_sim_def example_config_def example_world_def
  example_maze_def withinMaze_def graphic_do_def getOpposingWall_def print_def tileLength_def
  round_double_0 example_rounding

lemma example_turnRight:
  "turnRight example_config example_world 10 (example_sim DISCRETE (0.09, 0.09) 0)
     = Returned ()
         ((example_sim DISCRETE (0.09, 0.09) 270)
            \<lparr>mouseCalls := [CallSetWheelSpeeds (1 / 2) (1 / 2), CallSetWheelSpeeds (1 / 2) (1 / 2),
                            CallSetWheelSpeeds (1 / 2) (1 / 2), CallSetWheelSpeeds 0 0,
                            CallTeleport (0.09, 0.09) 270],
              clock := 3 / 200\<rparr>)"
  by (simp add: example_defs eval_nat_numeral Let_def)

lemma example_turnRight_again:
  "turnRight example_config example_world 10
     ((example_sim DISCRETE (0.09, 0.09) 270)
        \<lparr>mouseCalls := [CallSetWheelSpeeds (1 / 2) (1 / 2), CallSetWheelSpeeds (1 / 2) (1 / 2),
                        CallSetWheelSpeeds (1 / 2) (1 / 2), CallSetWheelSpeeds 0 0,
                        CallTeleport (0.09, 0.09) 270],
          clock := 3 / 200\<rparr>)
     = Returned ()
         ((example_sim DISCRETE (0.09, 0.09) 180)
            \<lparr>mouseCalls := [CallSetWheelSpeeds (1 / 2) (1 / 2), CallSetWheelSpeeds (1 / 2) (1 / 2),
                            CallSetWheelSpeeds (1 / 2) (1 / 2), CallSetWheelSpeeds 0 0,
                            CallTeleport (0.09, 0.09) 270,
                            CallSetWheelSpeeds (1 / 2) (1 / 2), CallSetWheelSpeeds (1 / 2) (1 / 2),
                            CallSetWheelSpeeds (1 / 2) (1 / 2), CallSetWheelSpeeds 0 0,
                            CallTeleport (0.09, 0.09) 180],
              clock := 6 / 200\<rparr>)"
  by (simp add: example_defs eval_nat_numeral Let_def)

lemma example_turnLeft:
  "turnLeft example_config example_world 10 (example_sim DISCRETE (0.09, 0.09) 0)
     = Returned ()
         ((example_sim DISCRETE (0.09, 0.09) 90)
            \<lparr>mouseCalls := [CallSetWheelSpeeds (- 1 / 2) (- 1 / 2),
                            CallSetWheelSpeeds (- 1 / 2) (- 1 / 2),
                            CallSetWheelSpeeds (- 1 / 2) (- 1 / 2), CallSetWheelSpeeds 0 0,
                            CallTeleport (0.09, 0.09) 90],
              clock := 3 / 200\<rparr>)"
  by (simp add: example_defs eval_nat_numeral Let_def)

lemma example_wallFront:
  "wallFront example_config (example_sim DISCRETE (0.09, 0.09) 0)
     = Returned False
         ((example_sim DISCRETE (0.09, 0.09) 0)
            \<lparr>graphic := [GDeclareWall 0 0 NORTH False, GDeclareWall 0 1 SOUTH False]\<rparr>)"
  by (simp add: example_defs)

lemma example_moveForward:
  "moveForward example_config example_world 10 (example_sim DISCRETE (0.09, 0.09) 0)
     = Returned ()
         ((example_sim DISCRETE (3 / 32, 9 / 32) 0)
            \<lparr>graphic := [GDeclareWall 0 0 NORTH False, GDeclareWall 0 1 SOUTH False],
              mouseCalls := [CallSetWheelSpeeds (- 1) 1, CallSetWheelSpeeds (- 1) 1,
                            CallSetWheelSpeeds (- 1) 1, CallSetWheelSpeeds (- 1) 1,
                            CallSetWheelSpeeds 0 0, CallTeleport (3 / 32, 9 / 32) 0],
              clock := 1 / 50\<rparr>)"
  by (simp add: example_defs eval_nat_numeral Let_def)

theorem turnAround_two_right_turns_witness:
  "interfaceType (example_sim DISCRETE (0.09, 0.09) 0) = DISCRETE
   \<and> turnAround example_config example_world 10 (example_sim DISCRETE (0.09, 0.09) 0)
       = twoRightTurns example_config example_world 10 (example_sim DISCRETE (0.09, 0.09) 0)
   \<and> twoRightTurns example_config example_world 10 (example_sim DISCRETE (0.09, 0.09) 0)
       = Returned ()
           ((example_sim DISCRETE (0.09, 0.09) 180)
              \<lparr>mouseCalls := [CallSetWheelSpeeds (1 / 2) (1 / 2), CallSetWheelSpeeds (1 / 2) (1 / 2),
                              CallSetWheelSpeeds (1 / 2) (1 / 2), CallSetWheelSpeeds 0 0,
                              CallTeleport (0.09, 0.09) 270,
                              CallSetWheelSpeeds (1 / 2) (1 / 2), CallSetWheelSpeeds (1 / 2) (1 / 2),
                              CallSetWheelSpeeds (1 / 2) (1 / 2), CallSetWheelSpeeds 0 0,
                              CallTeleport (0.09, 0.09) 180],
                clock := 6 / 200\<rparr>)"
proof -
  have mode: "interfaceType (example_sim DISCRETE (0.09, 0.09) 0) = DISCRETE"
    by (simp add: example_sim_def)
  have two: "twoRightTurns example_config example_world 10 (example_sim DISCRETE (0.09, 0.09) 0)
       = Returned ()
           ((example_sim DISCRETE (0.09, 0.09) 180)
              \<lparr>mouseCalls := [CallSetWheelSpeeds (1 / 2) (1 / 2), CallSetWheelSpeeds (1 / 2) (1 / 2),
                              CallSetWheelSpeeds (1 / 2) (1 / 2), CallSetWheelSpeeds 0 0,
                              CallTeleport (0.09, 0.09) 270,
                              CallSetWheelSpeeds (1 / 2) (1 / 2), CallSetWheelSpeeds (1 / 2) (1 / 2),
                              CallSetWheelSpeeds (1 / 2) (1 / 2), CallSetWheelSpeeds 0 0,
                              CallTeleport (0.09, 0.09) 180],
                clock := 6 / 200\<rparr>)"
    unfolding twoRightTurns_def example_turnRight using example_turnRight_again by simp
  show ?thesis
    using mode two turnAround_two_right_turns [OF mode, of example_config example_world 10]
    by simp
qed

subsection \<open>Turning\<close>

lemma Degrees_canonical: "Degrees (canonicalAngle h) = canonicalAngle h"
  by (cases h) (simp_all add: Degrees_def)

lemma Degrees_right: "Degrees (canonicalAngle h - 90) = canonicalAngle (rightOf h)"
  by (cases h) (simp_all add: Degrees_def)

lemma Degrees_left: "Degrees (canonicalAngle h + 90) = canonicalAngle (leftOf h)"
  by (cases h) (simp_all add: Degrees_def)

lemma discretized_canonical:
  "currentRotation s = canonicalAngle h \<Longrightarrow> getDiscretizedRotation s = h"
  by (cases h) (simp_all add: getDiscretizedRotation_def)

text \<open>
  C4 (as the code has it). When \<^verbatim>\<open>turnRight()\<close> (\<^verbatim>\<open>turnLeft()\<close>) completes, its last command
  to the mouse is a teleport to the translation read at the start of the call and to the
  rotation read at the start of the call minus (plus) 90 degrees, wrapped into
  \<open>[0, 360)\<close>, and that is the final pose. If the starting rotation is the canonical angle
  of a heading, the final rotation is the canonical angle of the heading to its right
  (left), and it discretizes to that heading.
\<close>

theorem turn_teleports_by_quarter:
  "(turnRight cfg w fuel s = Returned () s' \<longrightarrow>
      currentTranslation s' = currentTranslation s
      \<and> currentRotation s' = Degrees (currentRotation s - 90)
      \<and> last (mouseCalls s')
          = CallTeleport (currentTranslation s) (Degrees (currentRotation s - 90))
      \<and> (currentRotation s = canonicalAngle h \<longrightarrow>
            currentRotation s' = canonicalAngle (rightOf h)
            \<and> getDiscretizedRotation s' = rightOf h))
   \<and> (turnLeft cfg w fuel s = Returned () s' \<longrightarrow>
      currentTranslation s' = currentTranslation s
      \<and> currentRotation s' = Degrees (currentRotation s + 90)
      \<and> last (mouseCalls s')
          = CallTeleport (currentTranslation s) (Degrees (currentRotation s + 90))
      \<and> (currentRotation s = canonicalAngle h \<longrightarrow>
            currentRotation s' = canonicalAngle (leftOf h)
            \<and> getDiscretizedRotation s' = leftOf h))"
proof (intro conjI impI)
  assume r: "turnRight cfg w fuel s = Returned () s'"
  from turnRight_Returned [OF r] obtain s1 where
    s': "s' = teleport (currentTranslation s) (Degrees (currentRotation s - 90))
               (mouse_setWheelSpeeds 0 0 s1)"
    by blast
  show "currentTranslation s' = currentTranslation s"
    by (simp add: s' teleport_def)
  show rot: "currentRotation s' = Degrees (currentRotation s - 90)"
    by (simp add: s' teleport_def)
  show "last (mouseCalls s')
          = CallTeleport (currentTranslation s) (Degrees (currentRotation s - 90))"
    by (simp add: s' teleport_def)
  assume c: "currentRotation s = canonicalAngle h"
  show c': "currentRotation s' = canonicalAngle (rightOf h)"
    using rot c by (simp add: Degrees_right)
  show "getDiscretizedRotation s' = rightOf h"
    using c' by (rule discretized_canonical)
next
  assume l: "turnLeft cfg w fuel s = Returned () s'"
  from turnLeft_Returned [OF l] obtain s1 where
    s': "s' = teleport (currentTranslation s) (Degrees (currentRotation s + 90))
               (mouse_setWheelSpeeds 0 0 s1)"
    by blast
  show "currentTranslation s' = currentTranslation s"
    by (simp add: s' teleport_def)
  show rot: "currentRotation s' = Degrees (currentRotation s + 90)"
    by (simp add: s' teleport_def)
  show "last (mouseCalls s')
          = CallTeleport (currentTranslation s) (Degrees (currentRotation s + 90))"
    by (simp add: s' teleport_def)
  assume c: "currentRotation s = canonicalAngle h"
  show c': "currentRotation s' = canonicalAngle (leftOf h)"
    using rot c by (simp add: Degrees_left)
  show "getDiscretizedRotation s' = leftOf h"
    using c' by (rule discretized_canonical)
qed

theorem turn_teleports_by_quarter_witness:
  "turnRight example_config example_world 10 (example_sim DISCRETE (0.09, 0.09) 0)
     = Returned ()
         ((example_sim DISCRETE (0.09, 0.09) 270)
            \<lparr>mouseCalls := [CallSetWheelSpeeds (1 / 2) (1 / 2), CallSetWheelSpeeds (1 / 2) (1 / 2),
                            CallSetWheelSpeeds (1 / 2) (1 / 2), CallSetWheelSpeeds 0 0,
                            CallTeleport (0.09, 0.09) 270],
              clock := 3 / 200\<rparr>)
   \<and> turnLeft example_config example_world 10 (example_sim DISCRETE (0.09, 0.09) 0)
     = Returned ()
         ((example_sim DISCRETE (0.09, 0.09) 90)
            \<lparr>mouseCalls := [CallSetWheelSpeeds (- 1 / 2) (- 1 / 2),
                            CallSetWheelSpeeds (- 1 / 2) (- 1 / 2),
                            CallSetWheelSpeeds (- 1 / 2) (- 1 / 2), CallSetWheelSpeeds 0 0,
                            CallTeleport (0.09, 0.09) 90],
              clock := 3 / 200\<rparr>)
   \<and> currentRotation (example_sim DISCRETE (0.09, 0.09) 0) = canonicalAngle NORTH
   \<and> getDiscretizedRotation
        ((example_sim DISCRETE (0.09, 0.09) 270)
            \<lparr>mouseCalls := [CallSetWheelSpeeds (1 / 2) (1 / 2), CallSetWheelSpeeds (1 / 2) (1 / 2),
                            CallSetWheelSpeeds (1 / 2) (1 / 2), CallSetWheelSpeeds 0 0,
                            CallTeleport (0.09, 0.09) 270],
              clock := 3 / 200\<rparr>) = EAST
   \<and> getDiscretizedRotation
        ((example_sim DISCRETE (0.09, 0.09) 90)
            \<lparr>mouseCalls := [CallSetWheelSpeeds (- 1 / 2) (- 1 / 2),
                            CallSetWheelSpeeds (- 1 / 2) (- 1 / 2),
                            CallSetWheelSpeeds (- 1 / 2) (- 1 / 2), CallSetWheelSpeeds 0 0,
                            CallTeleport (0.09, 0.09) 90],
              clock := 3 / 200\<rparr>) = WEST"
proof -
  let ?s = "example_sim DISCRETE (0.09, 0.09) 0"
  let ?r = "(example_sim DISCRETE (0.09, 0.09) 270)
            \<lparr>mouseCalls := [CallSetWheelSpeeds (1 / 2) (1 / 2), CallSetWheelSpeeds (1 / 2) (1 / 2),
                            CallSetWheelSpeeds (1 / 2) (1 / 2), CallSetWheelSpeeds 0 0,
                            CallTeleport (0.09, 0.09) 270],
              clock := 3 / 200\<rparr>"
  let ?l = "(example_sim DISCRETE (0.09, 0.09) 90)
            \<lparr>mouseCalls := [CallSetWheelSpeeds (- 1 / 2) (- 1 / 2),
                            CallSetWheelSpeeds (- 1 / 2) (- 1 / 2),
                            CallSetWheelSpeeds (- 1 / 2) (- 1 / 2), CallSetWheelSpeeds 0 0,
                            CallTeleport (0.09, 0.09) 90],
              clock := 3 / 200\<rparr>"
  have c: "currentRotation ?s = canonicalAngle NORTH"
    by (simp add: example_sim_def)
  have "getDiscretizedRotation ?r = rightOf NORTH"
    using turn_teleports_by_quarter [of example_config example_world 10 ?s ?r NORTH]
      example_turnRight c by blast
  then have r: "getDiscretizedRotation ?r = EAST" by simp
  have "getDiscretizedRotation ?l = leftOf NORTH"
    using turn_teleports_by_quarter [of example_config example_world 10 ?s ?l NORTH]
      example_turnLeft c by blast
  then have l: "getDiscretizedRotation ?l = WEST" by simp
  show ?thesis
    using example_turnRight example_turnLeft c r l by (intro conjI)
qed

text \<open>
  C4 as stated fails: from a rotation of 10 degrees the heading is NORTH and the heading
  to its right is EAST, whose canonical angle is 270 degrees, but \<^verbatim>\<open>turnRight()\<close>
  teleports the mouse to 280 degrees.
\<close>

theorem turn_teleports_by_quarter_counterexample:
  "getDiscretizedRotation (example_sim DISCRETE (0.09, 0.09) 10) = NORTH
   \<and> turnRight example_config example_world 10 (example_sim DISCRETE (0.09, 0.09) 10)
     = Returned ()
         ((example_sim DISCRETE (0.09, 0.09) 280)
            \<lparr>mouseCalls := [CallSetWheelSpeeds (1 / 2) (1 / 2), CallSetWheelSpeeds (1 / 2) (1 / 2),
                            CallSetWheelSpeeds (1 / 2) (1 / 2), CallSetWheelSpeeds 0 0,
                            CallTeleport (0.09, 0.09) 280],
              clock := 3 / 200\<rparr>)
   \<and> currentRotation
         ((example_sim DISCRETE (0.09, 0.09) 280)
            \<lparr>mouseCalls := [CallSetWheelSpeeds (1 / 2) (1 / 2), CallSetWheelSpeeds (1 / 2) (1 / 2),
                            CallSetWheelSpeeds (1 / 2) (1 / 2), CallSetWheelSpeeds 0 0,
                            CallTeleport (0.09, 0.09) 280],
              clock := 3 / 200\<rparr>) = 280
   \<and> canonicalAngle (rightOf (getDiscretizedRotation (example_sim DISCRETE (0.09, 0.09) 10)))
       = 270"
  by (simp add: example_defs eval_nat_numeral Let_def)

subsection \<open>Order of the commands in a motion\<close>

text \<open>
  However a loop ends, it has given the mouse wheel-speed commands only; the wall query
  gives the mouse no command.
\<close>

lemma waitWhilePaused_calls:
  "mouseCalls (result_state (waitWhilePaused cfg w n s)) = mouseCalls s"
  by (induction n arbitrary: s) (simp_all add: sleep_mouseCalls)

lemma checkPaused_calls:
  "\<exists>pre. mouseCalls (result_state (checkPaused cfg w fuel s)) = mouseCalls s @ pre
     \<and> (\<forall>c \<in> set pre. \<exists>l r. c = CallSetWheelSpeeds l r)"
proof (cases "paused s")
  case True
  have "mouseCalls (result_state (checkPaused cfg w fuel s))
        = mouseCalls s @ [CallSetWheelSpeeds 0 0]"
    using True by (simp add: checkPaused_def waitWhilePaused_calls mouse_setWheelSpeeds_def)
  then show ?thesis by simp
next
  case False
  then show ?thesis by (simp add: checkPaused_def)
qed

lemma motionLoop_calls:
  "\<exists>pre. mouseCalls (result_state (motionLoop cfg w fuel cond speeds n s)) = mouseCalls s @ pre
     \<and> (\<forall>c \<in> set pre. \<exists>l r. c = CallSetWheelSpeeds l r)"
proof (induction n arbitrary: s)
  case 0
  then show ?case by simp
next
  case (Suc n)
  show ?case
  proof (cases "cond s")
    case False
    then show ?thesis by simp
  next
    case True
    from checkPaused_calls [of cfg w fuel s] obtain pre1 where
      p1: "mouseCalls (result_state (checkPaused cfg w fuel s)) = mouseCalls s @ pre1"
        "\<forall>c \<in> set pre1. \<exists>l r. c = CallSetWheelSpeeds l r" by blast
    show ?thesis
    proof (cases "checkPaused cfg w fuel s")
      case (Stopped r s2)
      then have "mouseCalls (result_state (motionLoop cfg w fuel cond speeds (Suc n) s))
                 = mouseCalls s @ pre1"
        using True p1(1) by simp
      then show ?thesis using p1(2) by blast
    next
      case (Returned u s2)
      let ?next = "sleep w (minSleepDuration cfg / 1000)
                     (mouse_setWheelSpeeds (fst (speeds s2)) (snd (speeds s2)) s2)"
      from Suc.IH [of ?next] obtain pre2 where
        p2: "mouseCalls (result_state (motionLoop cfg w fuel cond speeds n ?next))
               = mouseCalls ?next @ pre2"
          "\<forall>c \<in> set pre2. \<exists>l r. c = CallSetWheelSpeeds l r" by blast
      have "mouseCalls (result_state (motionLoop cfg w fuel cond speeds (Suc n) s))
            = mouseCalls s
              @ (pre1 @ [CallSetWheelSpeeds (fst (speeds s2)) (snd (speeds s2))] @ pre2)"
        using True Returned p1(1) p2(1)
        by (simp add: sleep_mouseCalls mouse_setWheelSpeeds_def)
      moreover have "\<forall>c \<in> set (pre1 @ [CallSetWheelSpeeds (fst (speeds s2)) (snd (speeds s2))]
          @ pre2). \<exists>l r. c = CallSetWheelSpeeds l r"
        using p1(2) p2(2) by auto
      ultimately show ?thesis by blast
    qed
  qed
qed

lemma arrive_Stopped:
  "arrive t r res = Stopped e s' \<Longrightarrow> res = Stopped e s'"
  by (cases res) (simp_all add: arrive_def)

lemma isWall_calls: "mouseCalls (result_state (isWall cfg pos d s)) = mouseCalls s"
proof -
  have "mouseCalls (result_state
          (bind_result (declareWall cfg x y c b s) (\<lambda>_ s. Returned b s))) = mouseCalls s"
    for x y c b
  proof -
    from declareWall_returns [of cfg x y c b s] obtain g p where
      "declareWall cfg x y c b s = Returned () (s\<lparr>graphic := g, printed := p\<rparr>)" by blast
    then show ?thesis by simp
  qed
  then show ?thesis
    by (simp add: isWall_def Let_def split: option.splits)
qed

lemma wallFront_calls: "mouseCalls (result_state (wallFront cfg s)) = mouseCalls s"
  by (simp add: wallFront_def ensureDiscreteInterface_def print_def isWall_calls)

lemma turnRight_Stopped:
  assumes "turnRight cfg w fuel s = Stopped e s'"
  shows "\<exists>pre. mouseCalls s' = mouseCalls s @ pre
           \<and> (\<forall>c \<in> set pre. \<exists>l r. c = CallSetWheelSpeeds l r)"
proof (cases "interfaceType s = DISCRETE")
  case False
  then have "s' = print (mode_error ''DISCRETE'' ''turnRight'') s"
    using assms by (simp add: turnRight_def ensureDiscreteInterface_def)
  then show ?thesis by (simp add: print_def)
next
  case True
  then obtain cond where
    "motionLoop cfg w fuel cond rightSpeeds fuel s = Stopped e s'"
    using assms arrive_Stopped
    by (fastforce simp add: turnRight_def ensureDiscreteInterface_def Let_def)
  then show ?thesis
    using motionLoop_calls [of cfg w fuel cond rightSpeeds fuel s] by simp
qed

lemma turnLeft_Stopped:
  assumes "turnLeft cfg w fuel s = Stopped e s'"
  shows "\<exists>pre. mouseCalls s' = mouseCalls s @ pre
           \<and> (\<forall>c \<in> set pre. \<exists>l r. c = CallSetWheelSpeeds l r)"
proof (cases "interfaceType s = DISCRETE")
  case False
  then have "s' = print (mode_error ''DISCRETE'' ''turnLeft'') s"
    using assms by (simp add: turnLeft_def ensureDiscreteInterface_def)
  then show ?thesis by (simp add: print_def)
next
  case True
  then obtain cond where
    "motionLoop cfg w fuel cond leftSpeeds fuel s = Stopped e s'"
    using assms arrive_Stopped
    by (fastforce simp add: turnLeft_def ensureDiscreteInterface_def Let_def)
  then show ?thesis
    using motionLoop_calls [of cfg w fuel cond leftSpeeds fuel s] by simp
qed

lemma moveForward_Stopped:
  assumes "moveForward cfg w fuel s = Stopped e s'"
  shows "\<exists>pre. mouseCalls s' = mouseCalls s @ pre
           \<and> (\<forall>c \<in> set pre. \<exists>l r. c = CallSetWheelSpeeds l r)"
proof (cases "interfaceType s = DISCRETE")
  case False
  then have "s' = print (mode_error ''DISCRETE'' ''moveForward'') s"
    using assms by (simp add: moveForward_def ensureDiscreteInterface_def)
  then show ?thesis by (simp add: print_def)
next
  case True
  show ?thesis
  proof (cases "wallFront cfg s")
    case (Stopped e1 s1)
    then have "s' = s1"
      using assms True by (simp add: moveForward_def ensureDiscreteInterface_def)
    then show ?thesis using wallFront_calls [of cfg s] Stopped by simp
  next
    case (Returned wall s1)
    have calls: "mouseCalls s1 = mouseCalls s"
      using wallFront_calls [of cfg s] Returned by simp
    have nowall: "\<not> wall"
      using assms True Returned
      by (auto simp add: moveForward_def ensureDiscreteInterface_def)
    then obtain cond where
      "motionLoop cfg w fuel cond forwardSpeeds fuel s1 = Stopped e s'"
      using assms True Returned arrive_Stopped
      by (fastforce simp add: moveForward_def ensureDiscreteInterface_def Let_def)
    then show ?thesis
      using motionLoop_calls [of cfg w fuel cond forwardSpeeds fuel s1] calls by simp
  qed
qed

lemma moveForward_blocked:
  assumes "wallFront cfg s = Returned True sw" and "moveForward cfg w fuel s = Returned u s'"
  shows "mouseCalls s' = mouseCalls s"
proof -
  have mode: "interfaceType s = DISCRETE"
    using wallFront_Returned [OF assms(1)] by blast
  have "s' = (if \<not> crashed sw then setCrashed sw else sw)"
    using assms mode by (simp add: moveForward_def ensureDiscreteInterface_def)
  moreover have "mouseCalls sw = mouseCalls s"
    using wallFront_calls [of cfg s] assms(1) by simp
  ultimately show ?thesis by (simp add: setCrashed_def)
qed

lemma arrival_order:
  assumes "motionLoop cfg w fuel cond speeds n sw = Returned () s1"
    and "mouseCalls sw = mouseCalls s"
    and "s' = teleport t r (mouse_setWheelSpeeds 0 0 s1)"
  shows "\<exists>s1 pre. motionLoop cfg w fuel cond speeds n sw = Returned () s1
           \<and> \<not> cond s1
           \<and> mouseCalls s1 = mouseCalls s @ pre
           \<and> (\<forall>c \<in> set pre. \<exists>l r. c = CallSetWheelSpeeds l r)
           \<and> wheelSpeeds (mouse_setWheelSpeeds 0 0 s1) = (0, 0)
           \<and> s' = teleport t r (mouse_setWheelSpeeds 0 0 s1)
           \<and> mouseCalls s' = mouseCalls s @ pre @ [CallSetWheelSpeeds 0 0, CallTeleport t r]"
proof -
  from motionLoop_Returned [OF assms(1)] obtain pre where
    stop: "\<not> cond s1" and
    calls: "mouseCalls s1 = mouseCalls s @ pre" and
    wheels: "\<forall>c \<in> set pre. \<exists>l r. c = CallSetWheelSpeeds l r"
    using assms(2) by auto
  have zero: "wheelSpeeds (mouse_setWheelSpeeds 0 0 s1) = (0, 0)"
    by (simp add: mouse_setWheelSpeeds_def)
  have "mouseCalls s' = mouseCalls s @ pre @ [CallSetWheelSpeeds 0 0, CallTeleport t r]"
    by (simp add: assms(3) teleport_def mouse_setWheelSpeeds_def calls)
  with assms(1) stop calls wheels zero assms(3) show ?thesis by blast
qed

text \<open>
  C7. When \<^verbatim>\<open>moveForward()\<close> (with no wall in front), \<^verbatim>\<open>turnRight()\<close> or \<^verbatim>\<open>turnLeft()\<close>
  completes, its motion loop has returned, in a state \<open>s1\<close> in which the condition of
  the loop is false and up to which the call has given the mouse wheel-speed commands
  only; from that state the call commands both wheels to zero and, with the wheel speeds
  zero, teleports to the destination. So the commands of the call are wheel-speed commands, then
  \<^verbatim>\<open>setWheelSpeeds(0, 0)\<close>, then the one teleport, in this order. A \<^verbatim>\<open>moveForward()\<close> that
  finds a wall in front gives the mouse no command, and a call that does not return has
  given wheel-speed commands only: no teleport is issued in any other way.
\<close>

theorem teleport_after_wheels_zeroed:
  "(wallFront cfg s = Returned False sw \<and> moveForward cfg w fuel s = Returned () s' \<longrightarrow>
      (\<exists>s1 pre.
         motionLoop cfg w fuel
           (forwardCond (getDiscretizedRotation s) (fst (forwardDestination cfg s)))
           forwardSpeeds fuel sw = Returned () s1
         \<and> \<not> forwardCond (getDiscretizedRotation s) (fst (forwardDestination cfg s)) s1
         \<and> mouseCalls s1 = mouseCalls s @ pre
         \<and> (\<forall>c \<in> set pre. \<exists>l r. c = CallSetWheelSpeeds l r)
         \<and> wheelSpeeds (mouse_setWheelSpeeds 0 0 s1) = (0, 0)
         \<and> s' = teleport (fst (forwardDestination cfg s)) (snd (forwardDestination cfg s))
                  (mouse_setWheelSpeeds 0 0 s1)
         \<and> mouseCalls s'
             = mouseCalls s @ pre
               @ [CallSetWheelSpeeds 0 0,
                  CallTeleport (fst (forwardDestination cfg s))
                    (snd (forwardDestination cfg s))]))
   \<and> (turnRight cfg w fuel s = Returned () s' \<longrightarrow>
      (\<exists>s1 pre.
         motionLoop cfg w fuel
           (rightCond (getDiscretizedRotation s) (Degrees (currentRotation s - 90)))
           rightSpeeds fuel s = Returned () s1
         \<and> \<not> rightCond (getDiscretizedRotation s) (Degrees (currentRotation s - 90)) s1
         \<and> mouseCalls s1 = mouseCalls s @ pre
         \<and> (\<forall>c \<in> set pre. \<exists>l r. c = CallSetWheelSpeeds l r)
         \<and> wheelSpeeds (mouse_setWheelSpeeds 0 0 s1) = (0, 0)
         \<and> s' = teleport (currentTranslation s) (Degrees (currentRotation s - 90))
                  (mouse_setWheelSpeeds 0 0 s1)
         \<and> mouseCalls s'
             = mouseCalls s @ pre
               @ [CallSetWheelSpeeds 0 0,
                  CallTeleport (currentTranslation s) (Degrees (currentRotation s - 90))]))
   \<and> (turnLeft cfg w fuel s = Returned () s' \<longrightarrow>
      (\<exists>s1 pre.
         motionLoop cfg w fuel
           (leftCond (getDiscretizedRotation s) (Degrees (currentRotation s + 90)))
           leftSpeeds fuel s = Returned () s1
         \<and> \<not> leftCond (getDiscretizedRotation s) (Degrees (currentRotation s + 90)) s1
         \<and> mouseCalls s1 = mouseCalls s @ pre
         \<and> (\<forall>c \<in> set pre. \<exists>l r. c = CallSetWheelSpeeds l r)
         \<and> wheelSpeeds (mouse_setWheelSpeeds 0 0 s1) = (0, 0)
         \<and> s' = teleport (currentTranslation s) (Degrees (currentRotation s + 90))
                  (mouse_setWheelSpeeds 0 0 s1)
         \<and> mouseCalls s'
             = mouseCalls s @ pre
               @ [CallSetWheelSpeeds 0 0,
                  CallTeleport (currentTranslation s) (Degrees (currentRotation s + 90))]))
   \<and> (wallFront cfg s = Returned True sw \<and> moveForward cfg w fuel s = Returned () s' \<longrightarrow>
      mouseCalls s' = mouseCalls s)
   \<and> (moveForward cfg w fuel s = Stopped e s' \<longrightarrow>
      (\<exists>pre. mouseCalls s' = mouseCalls s @ pre
         \<and> (\<forall>c \<in> set pre. \<exists>l r. c = CallSetWheelSpeeds l r)))
   \<and> (turnRight cfg w fuel s = Stopped e s' \<longrightarrow>
      (\<exists>pre. mouseCalls s' = mouseCalls s @ pre
         \<and> (\<forall>c \<in> set pre. \<exists>l r. c = CallSetWheelSpeeds l r)))
   \<and> (turnLeft cfg w fuel s = Stopped e s' \<longrightarrow>
      (\<exists>pre. mouseCalls s' = mouseCalls s @ pre
         \<and> (\<forall>c \<in> set pre. \<exists>l r. c = CallSetWheelSpeeds l r)))"
proof (intro conjI impI)
  assume a: "wallFront cfg s = Returned False sw \<and> moveForward cfg w fuel s = Returned () s'"
  from wallFront_Returned [of cfg s False sw] a obtain g p where
    sw: "sw = s\<lparr>graphic := g, printed := p\<rparr>" by blast
  have calls: "mouseCalls sw = mouseCalls s" by (simp add: sw)
  from moveForward_Returned [of cfg s sw w fuel "()" s'] a obtain s1 where
    loop: "motionLoop cfg w fuel
             (forwardCond (getDiscretizedRotation s) (fst (forwardDestination cfg s)))
             forwardSpeeds fuel sw = Returned () s1" and
    s': "s' = teleport (fst (forwardDestination cfg s)) (snd (forwardDestination cfg s))
               (mouse_setWheelSpeeds 0 0 s1)"
    by blast
  from loop calls s' show "\<exists>s1 pre.
         motionLoop cfg w fuel
           (forwardCond (getDiscretizedRotation s) (fst (forwardDestination cfg s)))
           forwardSpeeds fuel sw = Returned () s1
         \<and> \<not> forwardCond (getDiscretizedRotation s) (fst (forwardDestination cfg s)) s1
         \<and> mouseCalls s1 = mouseCalls s @ pre
         \<and> (\<forall>c \<in> set pre. \<exists>l r. c = CallSetWheelSpeeds l r)
         \<and> wheelSpeeds (mouse_setWheelSpeeds 0 0 s1) = (0, 0)
         \<and> s' = teleport (fst (forwardDestination cfg s)) (snd (forwardDestination cfg s))
                  (mouse_setWheelSpeeds 0 0 s1)
         \<and> mouseCalls s'
             = mouseCalls s @ pre
               @ [CallSetWheelSpeeds 0 0,
                  CallTeleport (fst (forwardDestination cfg s))
                    (snd (forwardDestination cfg s))]"
    by (rule arrival_order)
next
  assume a: "turnRight cfg w fuel s = Returned () s'"
  from turnRight_Returned [OF a] obtain s1 where
    loop: "motionLoop cfg w fuel
             (rightCond (getDiscretizedRotation s) (Degrees (currentRotation s - 90)))
             rightSpeeds fuel s = Returned () s1" and
    s': "s' = teleport (currentTranslation s) (Degrees (currentRotation s - 90))
               (mouse_setWheelSpeeds 0 0 s1)"
    by blast
  from loop refl s' show "\<exists>s1 pre.
         motionLoop cfg w fuel
           (rightCond (getDiscretizedRotation s) (Degrees (currentRotation s - 90)))
           rightSpeeds fuel s = Returned () s1
         \<and> \<not> rightCond (getDiscretizedRotation s) (Degrees (currentRotation s - 90)) s1
         \<and> mouseCalls s1 = mouseCalls s @ pre
         \<and> (\<forall>c \<in> set pre. \<exists>l r. c = CallSetWheelSpeeds l r)
         \<and> wheelSpeeds (mouse_setWheelSpeeds 0 0 s1) = (0, 0)
         \<and> s' = teleport (currentTranslation s) (Degrees (currentRotation s - 90))
                  (mouse_setWheelSpeeds 0 0 s1)
         \<and> mouseCalls s'
             = mouseCalls s @ pre
               @ [CallSetWheelSpeeds 0 0,
                  CallTeleport (currentTranslation s) (Degrees (currentRotation s - 90))]"
    by (rule arrival_order)
next
  assume a: "turnLeft cfg w fuel s = Returned () s'"
  from turnLeft_Returned [OF a] obtain s1 where
    loop: "motionLoop cfg w fuel
             (leftCond (getDiscretizedRotation s) (Degrees (currentRotation s + 90)))
             leftSpeeds fuel s = Returned () s1" and
    s': "s' = teleport (currentTranslation s) (Degrees (currentRotation s + 90))
               (mouse_setWheelSpeeds 0 0 s1)"
    by blast
  from loop refl s' show "\<exists>s1 pre.
         motionLoop cfg w fuel
           (leftCond (getDiscretizedRotation s) (Degrees (currentRotation s + 90)))
           leftSpeeds fuel s = Returned () s1
         \<and> \<not> leftCond (getDiscretizedRotation s) (Degrees (currentRotation s + 90)) s1
         \<and> mouseCalls s1 = mouseCalls s @ pre
         \<and> (\<forall>c \<in> set pre. \<exists>l r. c = CallSetWheelSpeeds l r)
         \<and> wheelSpeeds (mouse_setWheelSpeeds 0 0 s1) = (0, 0)
         \<and> s' = teleport (currentTranslation s) (Degrees (currentRotation s + 90))
                  (mouse_setWheelSpeeds 0 0 s1)
         \<and> mouseCalls s'
             = mouseCalls s @ pre
               @ [CallSetWheelSpeeds 0 0,
                  CallTeleport (currentTranslation s) (Degrees (currentRotation s + 90))]"
    by (rule arrival_order)
next
  assume a: "wallFront cfg s = Returned True sw \<and> moveForward cfg w fuel s = Returned () s'"
  then show "mouseCalls s' = mouseCalls s"
    using moveForward_blocked [of cfg s sw w fuel "()" s'] by blast
next
  assume "moveForward cfg w fuel s = Stopped e s'"
  then show "\<exists>pre. mouseCalls s' = mouseCalls s @ pre
         \<and> (\<forall>c \<in> set pre. \<exists>l r. c = CallSetWheelSpeeds l r)"
    by (rule moveForward_Stopped)
next
  assume "turnRight cfg w fuel s = Stopped e s'"
  then show "\<exists>pre. mouseCalls s' = mouseCalls s @ pre
         \<and> (\<forall>c \<in> set pre. \<exists>l r. c = CallSetWheelSpeeds l r)"
    by (rule turnRight_Stopped)
next
  assume "turnLeft cfg w fuel s = Stopped e s'"
  then show "\<exists>pre. mouseCalls s' = mouseCalls s @ pre
         \<and> (\<forall>c \<in> set pre. \<exists>l r. c = CallSetWheelSpeeds l r)"
    by (rule turnLeft_Stopped)
qed

lemma example_wall_seen:
  "wallFront example_config (example_sim DISCRETE (0.09, 0.09) 180)
     = Returned True
         ((example_sim DISCRETE (0.09, 0.09) 180)\<lparr>graphic := [GDeclareWall 0 0 SOUTH True]\<rparr>)"
  by (simp add: example_defs)

lemma example_wall_hit:
  "moveForward example_config example_world 10 (example_sim DISCRETE (0.09, 0.09) 180)
     = Returned ()
         ((example_sim DISCRETE (0.09, 0.09) 180)
            \<lparr>crashed := True, graphic := [GDeclareWall 0 0 SOUTH True]\<rparr>)"
  by (simp add: example_defs setCrashed_def)

lemma example_moveForward_short:
  "moveForward example_config example_world 2 (example_sim DISCRETE (0.09, 0.09) 0)
     = Stopped OutOfFuel
         ((example_sim DISCRETE (0.09, 0.19) 0)
            \<lparr>wheelSpeeds := (- 1, 1),
              graphic := [GDeclareWall 0 0 NORTH False, GDeclareWall 0 1 SOUTH False],
              mouseCalls := [CallSetWheelSpeeds (- 1) 1, CallSetWheelSpeeds (- 1) 1],
              clock := 1 / 100\<rparr>)"
  by (simp add: example_defs eval_nat_numeral Let_def)

lemma example_turnRight_short:
  "turnRight example_config example_world 1 (example_sim DISCRETE (0.09, 0.09) 0)
     = Stopped OutOfFuel
         ((example_sim DISCRETE (0.09, 0.09) 320)
            \<lparr>wheelSpeeds := (1 / 2, 1 / 2),
              mouseCalls := [CallSetWheelSpeeds (1 / 2) (1 / 2)], clock := 1 / 200\<rparr>)"
  by (simp add: example_defs eval_nat_numeral Let_def)

lemma example_turnLeft_short:
  "turnLeft example_config example_world 1 (example_sim DISCRETE (0.09, 0.09) 0)
     = Stopped OutOfFuel
         ((example_sim DISCRETE (0.09, 0.09) 40)
            \<lparr>wheelSpeeds := (- 1 / 2, - 1 / 2),
              mouseCalls := [CallSetWheelSpeeds (- 1 / 2) (- 1 / 2)], clock := 1 / 200\<rparr>)"
  by (simp add: example_defs eval_nat_numeral Let_def)

theorem teleport_after_wheels_zeroed_witness:
  "wallFront example_config (example_sim DISCRETE (0.09, 0.09) 0)
     = Returned False
         ((example_sim DISCRETE (0.09, 0.09) 0)
            \<lparr>graphic := [GDeclareWall 0 0 NORTH False, GDeclareWall 0 1 SOUTH False]\<rparr>)
   \<and> moveForward example_config example_world 10 (example_sim DISCRETE (0.09, 0.09) 0)
     = Returned ()
         ((example_sim DISCRETE (3 / 32, 9 / 32) 0)
            \<lparr>graphic := [GDeclareWall 0 0 NORTH False, GDeclareWall 0 1 SOUTH False],
              mouseCalls := [CallSetWheelSpeeds (- 1) 1, CallSetWheelSpeeds (- 1) 1,
                            CallSetWheelSpeeds (- 1) 1, CallSetWheelSpeeds (- 1) 1,
                            CallSetWheelSpeeds 0 0, CallTeleport (3 / 32, 9 / 32) 0],
              clock := 1 / 50\<rparr>)
   \<and> (\<exists>s1 pre.
         motionLoop example_config example_world 10
           (forwardCond (getDiscretizedRotation (example_sim DISCRETE (0.09, 0.09) 0))
              (fst (forwardDestination example_config (example_sim DISCRETE (0.09, 0.09) 0))))
           forwardSpeeds 10
           ((example_sim DISCRETE (0.09, 0.09) 0)
              \<lparr>graphic := [GDeclareWall 0 0 NORTH False, GDeclareWall 0 1 SOUTH False]\<rparr>)
           = Returned () s1
         \<and> \<not> forwardCond (getDiscretizedRotation (example_sim DISCRETE (0.09, 0.09) 0))
             (fst (forwardDestination example_config (example_sim DISCRETE (0.09, 0.09) 0))) s1
         \<and> mouseCalls s1 = mouseCalls (example_sim DISCRETE (0.09, 0.09) 0) @ pre
         \<and> (\<forall>c \<in> set pre. \<exists>l r. c = CallSetWheelSpeeds l r)
         \<and> wheelSpeeds (mouse_setWheelSpeeds 0 0 s1) = (0, 0)
         \<and> mouseCalls
              ((example_sim DISCRETE (3 / 32, 9 / 32) 0)
                 \<lparr>graphic := [GDeclareWall 0 0 NORTH False, GDeclareWall 0 1 SOUTH False],
                   mouseCalls := [CallSetWheelSpeeds (- 1) 1, CallSetWheelSpeeds (- 1) 1,
                                 CallSetWheelSpeeds (- 1) 1, CallSetWheelSpeeds (- 1) 1,
                                 CallSetWheelSpeeds 0 0, CallTeleport (3 / 32, 9 / 32) 0],
                   clock := 1 / 50\<rparr>)
             = mouseCalls (example_sim DISCRETE (0.09, 0.09) 0) @ pre
               @ [CallSetWheelSpeeds 0 0,
                  CallTeleport
                    (fst (forwardDestination example_config (example_sim DISCRETE (0.09, 0.09) 0)))
                    (snd (forwardDestination example_config
                            (example_sim DISCRETE (0.09, 0.09) 0)))])
   \<and> turnRight example_config example_world 10 (example_sim DISCRETE (0.09, 0.09) 0)
     = Returned ()
         ((example_sim DISCRETE (0.09, 0.09) 270)
            \<lparr>mouseCalls := [CallSetWheelSpeeds (1 / 2) (1 / 2), CallSetWheelSpeeds (1 / 2) (1 / 2),
                            CallSetWheelSpeeds (1 / 2) (1 / 2), CallSetWheelSpeeds 0 0,
                            CallTeleport (0.09, 0.09) 270],
              clock := 3 / 200\<rparr>)
   \<and> (\<exists>s1 pre.
         motionLoop example_config example_world 10
           (rightCond (getDiscretizedRotation (example_sim DISCRETE (0.09, 0.09) 0))
              (Degrees (currentRotation (example_sim DISCRETE (0.09, 0.09) 0) - 90)))
           rightSpeeds 10 (example_sim DISCRETE (0.09, 0.09) 0) = Returned () s1
         \<and> \<not> rightCond (getDiscretizedRotation (example_sim DISCRETE (0.09, 0.09) 0))
             (Degrees (currentRotation (example_sim DISCRETE (0.09, 0.09) 0) - 90)) s1
         \<and> mouseCalls s1 = mouseCalls (example_sim DISCRETE (0.09, 0.09) 0) @ pre
         \<and> (\<forall>c \<in> set pre. \<exists>l r. c = CallSetWheelSpeeds l r)
         \<and> wheelSpeeds (mouse_setWheelSpeeds 0 0 s1) = (0, 0)
         \<and> mouseCalls
              ((example_sim DISCRETE (0.09, 0.09) 270)
                 \<lparr>mouseCalls := [CallSetWheelSpeeds (1 / 2) (1 / 2),
                                 CallSetWheelSpeeds (1 / 2) (1 / 2),
                                 CallSetWheelSpeeds (1 / 2) (1 / 2), CallSetWheelSpeeds 0 0,
                                 CallTeleport (0.09, 0.09) 270],
                   clock := 3 / 200\<rparr>)
             = mouseCalls (example_sim DISCRETE (0.09, 0.09) 0) @ pre
               @ [CallSetWheelSpeeds 0 0,
                  CallTeleport (currentTranslation (example_sim DISCRETE (0.09, 0.09) 0))
                    (Degrees (currentRotation (example_sim DISCRETE (0.09, 0.09) 0) - 90))])
   \<and> turnLeft example_config example_world 10 (example_sim DISCRETE (0.09, 0.09) 0)
     = Returned ()
         ((example_sim DISCRETE (0.09, 0.09) 90)
            \<lparr>mouseCalls := [CallSetWheelSpeeds (- 1 / 2) (- 1 / 2),
                            CallSetWheelSpeeds (- 1 / 2) (- 1 / 2),
                            CallSetWheelSpeeds (- 1 / 2) (- 1 / 2), CallSetWheelSpeeds 0 0,
                            CallTeleport (0.09, 0.09) 90],
              clock := 3 / 200\<rparr>)
   \<and> (\<exists>s1 pre.
         motionLoop example_config example_world 10
           (leftCond (getDiscretizedRotation (example_sim DISCRETE (0.09, 0.09) 0))
              (Degrees (currentRotation (example_sim DISCRETE (0.09, 0.09) 0) + 90)))
           leftSpeeds 10 (example_sim DISCRETE (0.09, 0.09) 0) = Returned () s1
         \<and> \<not> leftCond (getDiscretizedRotation (example_sim DISCRETE (0.09, 0.09) 0))
             (Degrees (currentRotation (example_sim DISCRETE (0.09, 0.09) 0) + 90)) s1
         \<and> mouseCalls s1 = mouseCalls (example_sim DISCRETE (0.09, 0.09) 0) @ pre
         \<and> (\<forall>c \<in> set pre. \<exists>l r. c = CallSetWheelSpeeds l r)
         \<and> wheelSpeeds (mouse_setWheelSpeeds 0 0 s1) = (0, 0)
         \<and> mouseCalls
              ((example_sim DISCRETE (0.09, 0.09) 90)
                 \<lparr>mouseCalls := [CallSetWheelSpeeds (- 1 / 2) (- 1 / 2),
                                 CallSetWheelSpeeds (- 1 / 2) (- 1 / 2),
                                 CallSetWheelSpeeds (- 1 / 2) (- 1 / 2), CallSetWheelSpeeds 0 0,
                                 CallTeleport (0.09, 0.09) 90],
                   clock := 3 / 200\<rparr>)
             = mouseCalls (example_sim DISCRETE (0.09, 0.09) 0) @ pre
               @ [CallSetWheelSpeeds 0 0,
                  CallTeleport (currentTranslation (example_sim DISCRETE (0.09, 0.09) 0))
                    (Degrees (currentRotation (example_sim DISCRETE (0.09, 0.09) 0) + 90))])
   \<and> wallFront example_config (example_sim DISCRETE (0.09, 0.09) 180)
     = Returned True
         ((example_sim DISCRETE (0.09, 0.09) 180)\<lparr>graphic := [GDeclareWall 0 0 SOUTH True]\<rparr>)
   \<and> moveForward example_config example_world 10 (example_sim DISCRETE (0.09, 0.09) 180)
     = Returned ()
         ((example_sim DISCRETE (0.09, 0.09) 180)
            \<lparr>crashed := True, graphic := [GDeclareWall 0 0 SOUTH True]\<rparr>)
   \<and> mouseCalls
         ((example_sim DISCRETE (0.09, 0.09) 180)
            \<lparr>crashed := True, graphic := [GDeclareWall 0 0 SOUTH True]\<rparr>)
       = mouseCalls (example_sim DISCRETE (0.09, 0.09) 180)
   \<and> moveForward example_config example_world 2 (example_sim DISCRETE (0.09, 0.09) 0)
     = Stopped OutOfFuel
         ((example_sim DISCRETE (0.09, 0.19) 0)
            \<lparr>wheelSpeeds := (- 1, 1),
              graphic := [GDeclareWall 0 0 NORTH False, GDeclareWall 0 1 SOUTH False],
              mouseCalls := [CallSetWheelSpeeds (- 1) 1, CallSetWheelSpeeds (- 1) 1],
              clock := 1 / 100\<rparr>)
   \<and> (\<exists>pre. mouseCalls
         ((example_sim DISCRETE (0.09, 0.19) 0)
            \<lparr>wheelSpeeds := (- 1, 1),
              graphic := [GDeclareWall 0 0 NORTH False, GDeclareWall 0 1 SOUTH False],
              mouseCalls := [CallSetWheelSpeeds (- 1) 1, CallSetWheelSpeeds (- 1) 1],
              clock := 1 / 100\<rparr>)
           = mouseCalls (example_sim DISCRETE (0.09, 0.09) 0) @ pre
         \<and> (\<forall>c \<in> set pre. \<exists>l r. c = CallSetWheelSpeeds l r))
   \<and> turnRight example_config example_world 1 (example_sim DISCRETE (0.09, 0.09) 0)
     = Stopped OutOfFuel
         ((example_sim DISCRETE (0.09, 0.09) 320)
            \<lparr>wheelSpeeds := (1 / 2, 1 / 2),
              mouseCalls := [CallSetWheelSpeeds (1 / 2) (1 / 2)], clock := 1 / 200\<rparr>)
   \<and> (\<exists>pre. mouseCalls
         ((example_sim DISCRETE (0.09, 0.09) 320)
            \<lparr>wheelSpeeds := (1 / 2, 1 / 2),
              mouseCalls := [CallSetWheelSpeeds (1 / 2) (1 / 2)], clock := 1 / 200\<rparr>)
           = mouseCalls (example_sim DISCRETE (0.09, 0.09) 0) @ pre
         \<and> (\<forall>c \<in> set pre. \<exists>l r. c = CallSetWheelSpeeds l r))
   \<and> turnLeft example_config example_world 1 (example_sim DISCRETE (0.09, 0.09) 0)
     = Stopped OutOfFuel
         ((example_sim DISCRETE (0.09, 0.09) 40)
            \<lparr>wheelSpeeds := (- 1 / 2, - 1 / 2),
              mouseCalls := [CallSetWheelSpeeds (- 1 / 2) (- 1 / 2)], clock := 1 / 200\<rparr>)
   \<and> (\<exists>pre. mouseCalls
         ((example_sim DISCRETE (0.09, 0.09) 40)
            \<lparr>wheelSpeeds := (- 1 / 2, - 1 / 2),
              mouseCalls := [CallSetWheelSpeeds (- 1 / 2) (- 1 / 2)], clock := 1 / 200\<rparr>)
           = mouseCalls (example_sim DISCRETE (0.09, 0.09) 0) @ pre
         \<and> (\<forall>c \<in> set pre. \<exists>l r. c = CallSetWheelSpeeds l r))"
proof -
  let ?s = "example_sim DISCRETE (0.09, 0.09) 0"
  let ?seen = "(example_sim DISCRETE (0.09, 0.09) 0)
            \<lparr>graphic := [GDeclareWall 0 0 NORTH False, GDeclareWall 0 1 SOUTH False]\<rparr>"
  let ?m = "(example_sim DISCRETE (3 / 32, 9 / 32) 0)
            \<lparr>graphic := [GDeclareWall 0 0 NORTH False, GDeclareWall 0 1 SOUTH False],
              mouseCalls := [CallSetWheelSpeeds (- 1) 1, CallSetWheelSpeeds (- 1) 1,
                            CallSetWheelSpeeds (- 1) 1, CallSetWheelSpeeds (- 1) 1,
                            CallSetWheelSpeeds 0 0, CallTeleport (3 / 32, 9 / 32) 0],
              clock := 1 / 50\<rparr>"
  let ?r = "(example_sim DISCRETE (0.09, 0.09) 270)
            \<lparr>mouseCalls := [CallSetWheelSpeeds (1 / 2) (1 / 2), CallSetWheelSpeeds (1 / 2) (1 / 2),
                            CallSetWheelSpeeds (1 / 2) (1 / 2), CallSetWheelSpeeds 0 0,
                            CallTeleport (0.09, 0.09) 270],
              clock := 3 / 200\<rparr>"
  let ?l = "(example_sim DISCRETE (0.09, 0.09) 90)
            \<lparr>mouseCalls := [CallSetWheelSpeeds (- 1 / 2) (- 1 / 2),
                            CallSetWheelSpeeds (- 1 / 2) (- 1 / 2),
                            CallSetWheelSpeeds (- 1 / 2) (- 1 / 2), CallSetWheelSpeeds 0 0,
                            CallTeleport (0.09, 0.09) 90],
              clock := 3 / 200\<rparr>"
  have m: "\<exists>s1 pre.
         motionLoop example_config example_world 10
           (forwardCond (getDiscretizedRotation ?s) (fst (forwardDestination example_config ?s)))
           forwardSpeeds 10 ?seen = Returned () s1
         \<and> \<not> forwardCond (getDiscretizedRotation ?s) (fst (forwardDestination example_config ?s)) s1
         \<and> mouseCalls s1 = mouseCalls ?s @ pre
         \<and> (\<forall>c \<in> set pre. \<exists>l r. c = CallSetWheelSpeeds l r)
         \<and> wheelSpeeds (mouse_setWheelSpeeds 0 0 s1) = (0, 0)
         \<and> mouseCalls ?m
             = mouseCalls ?s @ pre
               @ [CallSetWheelSpeeds 0 0,
                  CallTeleport (fst (forwardDestination example_config ?s))
                    (snd (forwardDestination example_config ?s))]"
    using teleport_after_wheels_zeroed [where cfg = example_config and s = ?s and sw = ?seen
        and w = example_world and fuel = 10 and e = OutOfFuel and s' = ?m]
      example_wallFront example_moveForward by blast
  have r: "\<exists>s1 pre.
         motionLoop example_config example_world 10
           (rightCond (getDiscretizedRotation ?s) (Degrees (currentRotation ?s - 90)))
           rightSpeeds 10 ?s = Returned () s1
         \<and> \<not> rightCond (getDiscretizedRotation ?s) (Degrees (currentRotation ?s - 90)) s1
         \<and> mouseCalls s1 = mouseCalls ?s @ pre
         \<and> (\<forall>c \<in> set pre. \<exists>l r. c = CallSetWheelSpeeds l r)
         \<and> wheelSpeeds (mouse_setWheelSpeeds 0 0 s1) = (0, 0)
         \<and> mouseCalls ?r
             = mouseCalls ?s @ pre
               @ [CallSetWheelSpeeds 0 0,
                  CallTeleport (currentTranslation ?s) (Degrees (currentRotation ?s - 90))]"
    using teleport_after_wheels_zeroed [where cfg = example_config and s = ?s and sw = ?seen
        and w = example_world and fuel = 10 and e = OutOfFuel and s' = ?r]
      example_turnRight by blast
  have l: "\<exists>s1 pre.
         motionLoop example_config example_world 10
           (leftCond (getDiscretizedRotation ?s) (Degrees (currentRotation ?s + 90)))
           leftSpeeds 10 ?s = Returned () s1
         \<and> \<not> leftCond (getDiscretizedRotation ?s) (Degrees (currentRotation ?s + 90)) s1
         \<and> mouseCalls s1 = mouseCalls ?s @ pre
         \<and> (\<forall>c \<in> set pre. \<exists>l r. c = CallSetWheelSpeeds l r)
         \<and> wheelSpeeds (mouse_setWheelSpeeds 0 0 s1) = (0, 0)
         \<and> mouseCalls ?l
             = mouseCalls ?s @ pre
               @ [CallSetWheelSpeeds 0 0,
                  CallTeleport (currentTranslation ?s) (Degrees (currentRotation ?s + 90))]"
    using teleport_after_wheels_zeroed [where cfg = example_config and s = ?s and sw = ?seen
        and w = example_world and fuel = 10 and e = OutOfFuel and s' = ?l]
      example_turnLeft by blast
  have b: "mouseCalls
         ((example_sim DISCRETE (0.09, 0.09) 180)
            \<lparr>crashed := True, graphic := [GDeclareWall 0 0 SOUTH True]\<rparr>)
       = mouseCalls (example_sim DISCRETE (0.09, 0.09) 180)"
    using teleport_after_wheels_zeroed [where cfg = example_config
        and s = "(example_sim DISCRETE (0.09, 0.09) 180)"
        and sw = "((example_sim DISCRETE (0.09, 0.09) 180)\<lparr>graphic := [GDeclareWall 0 0 SOUTH True]\<rparr>)"
        and w = example_world and fuel = 10 and e = OutOfFuel
        and s' = "((example_sim DISCRETE (0.09, 0.09) 180)
            \<lparr>crashed := True, graphic := [GDeclareWall 0 0 SOUTH True]\<rparr>)"]
      example_wall_seen example_wall_hit by blast
  have ms: "(\<exists>pre. mouseCalls
         ((example_sim DISCRETE (0.09, 0.19) 0)
            \<lparr>wheelSpeeds := (- 1, 1),
              graphic := [GDeclareWall 0 0 NORTH False, GDeclareWall 0 1 SOUTH False],
              mouseCalls := [CallSetWheelSpeeds (- 1) 1, CallSetWheelSpeeds (- 1) 1],
              clock := 1 / 100\<rparr>)
           = mouseCalls (example_sim DISCRETE (0.09, 0.09) 0) @ pre
         \<and> (\<forall>c \<in> set pre. \<exists>l r. c = CallSetWheelSpeeds l r))"
    using teleport_after_wheels_zeroed [where cfg = example_config and s = ?s and sw = ?s
        and w = example_world and fuel = 2 and e = OutOfFuel
        and s' = "((example_sim DISCRETE (0.09, 0.19) 0)
            \<lparr>wheelSpeeds := (- 1, 1),
              graphic := [GDeclareWall 0 0 NORTH False, GDeclareWall 0 1 SOUTH False],
              mouseCalls := [CallSetWheelSpeeds (- 1) 1, CallSetWheelSpeeds (- 1) 1],
              clock := 1 / 100\<rparr>)"]
      example_moveForward_short by blast
  have rs: "(\<exists>pre. mouseCalls
         ((example_sim DISCRETE (0.09, 0.09) 320)
            \<lparr>wheelSpeeds := (1 / 2, 1 / 2),
              mouseCalls := [CallSetWheelSpeeds (1 / 2) (1 / 2)], clock := 1 / 200\<rparr>)
           = mouseCalls (example_sim DISCRETE (0.09, 0.09) 0) @ pre
         \<and> (\<forall>c \<in> set pre. \<exists>l r. c = CallSetWheelSpeeds l r))"
    using teleport_after_wheels_zeroed [where cfg = example_config and s = ?s and sw = ?s
        and w = example_world and fuel = 1 and e = OutOfFuel
        and s' = "((example_sim DISCRETE (0.09, 0.09) 320)
            \<lparr>wheelSpeeds := (1 / 2, 1 / 2),
              mouseCalls := [CallSetWheelSpeeds (1 / 2) (1 / 2)], clock := 1 / 200\<rparr>)"]
      example_turnRight_short by blast
  have ls: "(\<exists>pre. mouseCalls
         ((example_sim DISCRETE (0.09, 0.09) 40)
            \<lparr>wheelSpeeds := (- 1 / 2, - 1 / 2),
              mouseCalls := [CallSetWheelSpeeds (- 1 / 2) (- 1 / 2)], clock := 1 / 200\<rparr>)
           = mouseCalls (example_sim DISCRETE (0.09, 0.09) 0) @ pre
         \<and> (\<forall>c \<in> set pre. \<exists>l r. c = CallSetWheelSpeeds l r))"
    using teleport_after_wheels_zeroed [where cfg = example_config and s = ?s and sw = ?s
        and w = example_world and fuel = 1 and e = OutOfFuel
        and s' = "((example_sim DISCRETE (0.09, 0.09) 40)
            \<lparr>wheelSpeeds := (- 1 / 2, - 1 / 2),
              mouseCalls := [CallSetWheelSpeeds (- 1 / 2) (- 1 / 2)], clock := 1 / 200\<rparr>)"]
      example_turnLeft_short by blast
  from example_wallFront example_moveForward m example_turnRight r example_turnLeft l
    example_wall_seen example_wall_hit b example_moveForward_short ms
    example_turnRight_short rs example_turnLeft_short ls
  show ?thesis by (intro conjI)
qed

subsection \<open>Accuracy of rounding\<close>





subsection \<open>The cell of a destination computed in floating point\<close>



subsection \<open>Moving forward\<close>









end
